theory Spec2Isabelle
  imports Main "HOL-Library.AList" "HOL-Library.Sublist"
begin

text \<open>
  A shallow embedding of the Cordova integration of sentry-wizard
  (src/lib/Steps/Integrations/Cordova.ts) and of the version check of
  src/lib/Helper/Package.ts, with the properties C1 to C10 of the specification settled
  on it. What the sources call in libraries (the xcode project parser,
  semver, glob, the file helpers) enters as a parameter or is modelled from the
  specification, which is said where it happens.
\<close>

section \<open>JavaScript strings and the three regular expressions of Cordova.ts\<close>

text \<open>
  A JavaScript string is a sequence of UTF-16 code units. A code unit is modelled as a
  natural number (no arithmetic is done on it, so no wrap-around is needed), and a
  string as the list of its code units. \<open>js\<close> turns an ASCII literal of the theory
  into such a string.
\<close>

type_synonym jschar = nat
type_synonym jsstring = "jschar list"

definition js :: "string \<Rightarrow> jsstring" where
  "js s = map of_char s"

text \<open>
  The regular expressions of the source use four constructs only: a literal
  character, a literal character under the \<open>i\<close> flag, \<open>\s+\<close> and \<open>\b\<close>.
  \<open>is_space\<close> is the class \<open>\s\<close> of ECMAScript (white space and line terminators),
  \<open>is_word\<close> the class \<open>[A-Za-z0-9_]\<close> that \<open>\b\<close> consults, and \<open>canon\<close> the
  canonicalisation of the \<open>i\<close> flag on the ASCII letters (without the \<open>u\<close> flag a
  code unit above 127 is never folded onto an ASCII one, so comparing \<open>canon\<close> of both
  sides is exact for an ASCII pattern character).
\<close>

datatype atom = Chr jschar | ChrI jschar | WhitePlus | WordB

definition is_space :: "jschar \<Rightarrow> bool" where
  "is_space c =
     (c \<in> {9, 10, 11, 12, 13, 32, 160, 5760, 8232, 8233, 8239, 8287, 12288, 65279}
      \<or> (8192 \<le> c \<and> c \<le> 8202))"

definition is_word :: "jschar \<Rightarrow> bool" where
  "is_word c =
     ((48 \<le> c \<and> c \<le> 57) \<or> (65 \<le> c \<and> c \<le> 90) \<or> c = 95 \<or> (97 \<le> c \<and> c \<le> 122))"

definition canon :: "jschar \<Rightarrow> jschar" where
  "canon c = (if 97 \<le> c \<and> c \<le> 122 then c - 32 else c)"

fun is_word_at :: "jschar option \<Rightarrow> bool" where
  "is_word_at None = False"
| "is_word_at (Some c) = is_word c"

fun peek :: "jsstring \<Rightarrow> jschar option" where
  "peek [] = None"
| "peek (x # s) = Some x"

text \<open>
  \<open>match_here r prev s\<close>: the pattern \<open>r\<close> matches a prefix of \<open>s\<close>, where \<open>prev\<close>
  is the code unit just before \<open>s\<close> in the subject (\<open>None\<close> at its start). \<open>\s+\<close>
  tries every non-empty run of white space, as the backtracking matcher does.
  \<open>search\<close> tries every start position, and \<open>regex_test r s\<close> is the truth value of
  \<open>s.match(r)\<close>: a match array is truthy, \<open>null\<close> is falsy (the \<open>g\<close> flag changes
  the array, not whether there is one).
\<close>

fun match_here :: "atom list \<Rightarrow> jschar option \<Rightarrow> jsstring \<Rightarrow> bool" where
  "match_here [] prev s = True"
| "match_here (Chr c # r) prev [] = False"
| "match_here (Chr c # r) prev (x # s) = (x = c \<and> match_here r (Some x) s)"
| "match_here (ChrI c # r) prev [] = False"
| "match_here (ChrI c # r) prev (x # s) = (canon x = canon c \<and> match_here r (Some x) s)"
| "match_here (WhitePlus # r) prev [] = False"
| "match_here (WhitePlus # r) prev (x # s) =
     (is_space x \<and> (match_here (WhitePlus # r) (Some x) s \<or> match_here r (Some x) s))"
| "match_here (WordB # r) prev s =
     (is_word_at prev \<noteq> is_word_at (peek s) \<and> match_here r prev s)"

fun search :: "atom list \<Rightarrow> jschar option \<Rightarrow> jsstring \<Rightarrow> bool" where
  "search r prev [] = match_here r prev []"
| "search r prev (x # s) = (match_here r prev (x # s) \<or> search r (Some x) s)"

definition regex_test :: "atom list \<Rightarrow> jsstring \<Rightarrow> bool" where
  "regex_test r s = search r None s"

text \<open>
  \<open>/sentry-cli\s+upload-dsym/\<close> of \<open>addNewXcodeBuildPhaseForSymbols\<close> (line 163),
  \<open>/@sentry\/cli\/bin\/sentry-cli\s+upload-dsym\b/\<close> of \<open>unpatchXcodeBuildScripts\<close>
  (line 109) and \<open>/sentry-cli/gi\<close> of \<open>shouldConfigurePlatform\<close> (line 66).
\<close>

definition apply_pattern :: "atom list" where
  "apply_pattern = map Chr (js ''sentry-cli'') @ [WhitePlus] @ map Chr (js ''upload-dsym'')"

definition revert_pattern :: "atom list" where
  "revert_pattern =
     map Chr (js ''@sentry/cli/bin/sentry-cli'') @ [WhitePlus] @ map Chr (js ''upload-dsym'')
       @ [WordB]"

definition content_pattern :: "atom list" where
  "content_pattern = map ChrI (js ''sentry-cli'')"

section \<open>The project descriptor (proj.hash.project.objects)\<close>

text \<open>
  The parsed project is a dynamically typed object graph; the model keeps the parts
  that Cordova.ts reads. The section \<open>PBXShellScriptBuildPhase\<close> maps a key either
  to a comment string (the keys \<open>id_comment\<close>) or to a phase object; it is an
  association list in the order of \<open>Object.keys\<close>, and \<open>None\<close> when the section is
  absent. A field that the source dereferences without a check is an option, so that
  the \<open>TypeError\<close> of JavaScript is a branch of the model. \<open>firstTarget\<close> is what
  the library's \<open>getFirstTarget().uuid\<close> returns, and \<open>otherObjects\<close> stands for
  every other section (all build phases of another kind live there).
\<close>

datatype error =
  TypeError | ParseError | WriteError | DirectoryCreateError | LocateError | OtherError jsstring

definition truthy :: "jsstring option \<Rightarrow> bool" where
  "truthy v = (case v of None \<Rightarrow> False | Some s \<Rightarrow> s \<noteq> [])"

record phase =
  isa :: "jsstring option"
  name :: "jsstring option"
  shellPath :: "jsstring option"
  shellScript :: "jsstring option"

datatype entry = Comment jsstring | Phase phase

record phase_ref =
  ref_value :: jsstring
  ref_comment :: jsstring

record native_target =
  target_name :: jsstring
  buildPhases :: "phase_ref list option"

record 'o project =
  PBXShellScriptBuildPhase :: "(jsstring \<times> entry) list option"
  PBXNativeTarget :: "(jsstring \<times> native_target) list"
  firstTarget :: jsstring
  otherObjects :: 'o

section \<open>Revert: unpatchXcodeBuildScripts and unpatchXcodeProj\<close>

text \<open>
  Lines 114 to 119: the first reference whose \<open>value\<close> is the key is spliced out,
  then the loop breaks.
\<close>

fun splice_first :: "jsstring \<Rightarrow> phase_ref list \<Rightarrow> phase_ref list" where
  "splice_first key [] = []"
| "splice_first key (r # rs) = (if ref_value r = key then rs else r # splice_first key rs)"

text \<open>
  Lines 101 to 123: the loop over \<open>Object.keys(scripts)\<close>, a snapshot taken before
  the loop, while \<open>scripts\<close> and the first target's \<open>buildPhases\<close> are mutated.
  \<open>delete\<close> is \<open>AList.delete\<close>; a phase object without a string \<open>shellScript\<close>
  makes \<open>script.shellScript.match\<close> throw, and so does a first target that is no
  entry of \<open>PBXNativeTarget\<close>.
\<close>

fun unpatchXcodeBuildScripts_loop ::
  "jsstring \<Rightarrow> jsstring list \<Rightarrow> (jsstring \<times> entry) list \<Rightarrow> (jsstring \<times> native_target) list
     \<Rightarrow> error + ((jsstring \<times> entry) list \<times> (jsstring \<times> native_target) list)" where
  "unpatchXcodeBuildScripts_loop ft [] scripts targets = Inr (scripts, targets)"
| "unpatchXcodeBuildScripts_loop ft (key # keys) scripts targets =
     (case map_of scripts key of
        None \<Rightarrow> unpatchXcodeBuildScripts_loop ft keys scripts targets
      | Some (Comment c) \<Rightarrow> unpatchXcodeBuildScripts_loop ft keys scripts targets
      | Some (Phase script) \<Rightarrow>
          (case shellScript script of
             None \<Rightarrow> Inl TypeError
           | Some body \<Rightarrow>
               if regex_test revert_pattern body then
                 (let scripts' = AList.delete (key @ js ''_comment'') (AList.delete key scripts)
                  in case map_of targets ft of
                       None \<Rightarrow> Inl TypeError
                     | Some t \<Rightarrow>
                         (case buildPhases t of
                            None \<Rightarrow> unpatchXcodeBuildScripts_loop ft keys scripts' targets
                          | Some phases \<Rightarrow>
                              unpatchXcodeBuildScripts_loop ft keys scripts'
                                (AList.update ft
                                   (t\<lparr>buildPhases := Some (splice_first key phases)\<rparr>) targets)))
               else unpatchXcodeBuildScripts_loop ft keys scripts targets))"

definition unpatchXcodeBuildScripts :: "'o project \<Rightarrow> error + 'o project" where
  "unpatchXcodeBuildScripts proj =
     (case PBXShellScriptBuildPhase proj of
        None \<Rightarrow> Inr proj
      | Some scripts \<Rightarrow>
          (case unpatchXcodeBuildScripts_loop (firstTarget proj) (map fst scripts) scripts
                  (PBXNativeTarget proj) of
             Inl e \<Rightarrow> Inl e
           | Inr (scripts', targets') \<Rightarrow>
               Inr (proj\<lparr>PBXShellScriptBuildPhase := Some scripts',
                         PBXNativeTarget := targets'\<rparr>)))"

text \<open>
  What the promise of \<open>patchXcodeProj\<close> and \<open>unpatchXcodeProj\<close> does. \<open>Resolve None\<close>
  is \<open>resolve()\<close>, \<open>Resolve (Some c)\<close> is \<open>resolve(c)\<close>, \<open>Reject\<close> is \<open>reject(err)\<close>.
  The library calls the callback of \<open>proj.parse\<close> from an event, after the executor
  of the promise has returned, so an exception thrown inside the callback settles
  nothing: the exception escapes and the promise stays pending, which is the outcome
  \<open>Throw\<close>.

  The library's parser and serialiser are parameters: \<open>parse filename\<close> is the
  outcome of \<open>xcode.project(filename).parse\<close>, \<open>writeSync\<close> the text of
  \<open>proj.writeSync()\<close>.
\<close>

datatype 'a outcome = Resolve 'a | Reject error | Throw error

definition unpatchXcodeProj ::
  "(jsstring \<Rightarrow> error + 'o project) \<Rightarrow> ('o project \<Rightarrow> jsstring) \<Rightarrow> jsstring \<Rightarrow> jsstring
     \<Rightarrow> jsstring option outcome" where
  "unpatchXcodeProj parse writeSync contents filename =
     (case parse filename of
        Inl err \<Rightarrow> Reject err
      | Inr proj \<Rightarrow>
          (case unpatchXcodeBuildScripts proj of
             Inl e \<Rightarrow> Throw e
           | Inr proj' \<Rightarrow> Resolve (Some (writeSync proj'))))"

section \<open>Apply: patchXcodeProj and addNewXcodeBuildPhaseForSymbols\<close>

text \<open>
  Lines 135 to 143: the objects of the section with a truthy \<open>isa\<close>, in key order
  (a comment string has no \<open>isa\<close>).
\<close>

definition buildScripts :: "'o project \<Rightarrow> phase list" where
  "buildScripts proj =
     (case PBXShellScriptBuildPhase proj of
        None \<Rightarrow> []
      | Some scripts \<Rightarrow>
          List.map_filter
            (\<lambda>kv. case snd kv of
                    Comment c \<Rightarrow> None
                  | Phase val \<Rightarrow> if truthy (isa val) then Some val else None)
            scripts)"

text \<open>Lines 162 to 166: \<open>Inr True\<close> is the early \<open>return\<close>.\<close>

fun addNewXcodeBuildPhaseForSymbols_loop :: "phase list \<Rightarrow> error + bool" where
  "addNewXcodeBuildPhaseForSymbols_loop [] = Inr False"
| "addNewXcodeBuildPhaseForSymbols_loop (script # rest) =
     (case shellScript script of
        None \<Rightarrow> Inl TypeError
      | Some body \<Rightarrow>
          if regex_test apply_pattern body then Inr True
          else addNewXcodeBuildPhaseForSymbols_loop rest)"

text \<open>
  Modelled from the spec: \<open>addBuildPhase\<close> of the xcode library, which is not part of
  the sources. The spec (4.2, \<open>addShellScriptPhase\<close>) has it create a new build phase
  of kind ShellScript with the given label, shell path and script, and append its id to
  the selected (first) target's \<open>buildPhases\<close> sequence. The new id \<open>uuid\<close> is a
  parameter; the phase is stored with its paired comment record (spec 3), by the
  assignment of JavaScript (\<open>AList.update\<close>: a new key goes last). Where the first
  target is missing or has no sequence there is nothing to append to.
\<close>

definition addBuildPhase ::
  "jsstring \<Rightarrow> jsstring \<Rightarrow> jsstring \<Rightarrow> jsstring \<Rightarrow> jsstring \<Rightarrow> 'o project \<Rightarrow> 'o project" where
  "addBuildPhase uuid buildPhaseType comment path script proj =
     (let scripts = (case PBXShellScriptBuildPhase proj of None \<Rightarrow> [] | Some s \<Rightarrow> s);
          buildPhase = \<lparr>isa = Some buildPhaseType, name = Some comment,
                        shellPath = Some path, shellScript = Some script\<rparr>;
          scripts' = AList.update (uuid @ js ''_comment'') (Comment comment)
                       (AList.update uuid (Phase buildPhase) scripts);
          targets = PBXNativeTarget proj;
          targets' = (case map_of targets (firstTarget proj) of
                        None \<Rightarrow> targets
                      | Some t \<Rightarrow>
                          (case buildPhases t of
                             None \<Rightarrow> targets
                           | Some phases \<Rightarrow>
                               AList.update (firstTarget proj)
                                 (t\<lparr>buildPhases :=
                                      Some (phases @ [\<lparr>ref_value = uuid, ref_comment = comment\<rparr>])\<rparr>)
                                 targets))
      in proj\<lparr>PBXShellScriptBuildPhase := Some scripts', PBXNativeTarget := targets'\<rparr>)"

text \<open>
  The script of lines 176 and 177. In the source \<open>\\n\<close> stands for a backslash and
  the letter n (code units 92 and 110), not for a line feed.
\<close>

definition upload_script :: jsstring where
  "upload_script =
     js ''export SENTRY_PROPERTIES=sentry.properties'' @ [92, 110] @
     js ''../../plugins/cordova-plugin-sentry/node_modules/@sentry/cli/bin/sentry-cli upload-dsym''"

definition addNewXcodeBuildPhaseForSymbols ::
  "jsstring \<Rightarrow> phase list \<Rightarrow> 'o project \<Rightarrow> error + 'o project" where
  "addNewXcodeBuildPhaseForSymbols uuid scripts proj =
     (case addNewXcodeBuildPhaseForSymbols_loop scripts of
        Inl e \<Rightarrow> Inl e
      | Inr True \<Rightarrow> Inr proj
      | Inr False \<Rightarrow>
          Inr (addBuildPhase uuid (js ''PBXShellScriptBuildPhase'')
                 (js ''Upload Debug Symbols to Sentry'') (js ''/bin/sh'') upload_script proj))"

definition patchXcodeProj ::
  "(jsstring \<Rightarrow> error + 'o project) \<Rightarrow> ('o project \<Rightarrow> jsstring) \<Rightarrow> jsstring \<Rightarrow> jsstring
     \<Rightarrow> jsstring \<Rightarrow> jsstring option outcome" where
  "patchXcodeProj parse writeSync uuid contents filename =
     (case parse filename of
        Inl err \<Rightarrow> Reject err
      | Inr proj \<Rightarrow>
          (case addNewXcodeBuildPhaseForSymbols uuid (buildScripts proj) proj of
             Inl e \<Rightarrow> Throw e
           | Inr proj' \<Rightarrow>
               (let newContents = writeSync proj'
                in if newContents = contents then Resolve None
                   else Resolve (Some newContents))))"

section \<open>One file of the patch engine\<close>

text \<open>
  The file system is a map from paths to contents. The library's parser reads the
  file it is given from that file system; \<open>parse_text\<close> is its grammar, a parameter.
\<close>

definition parse_file ::
  "(jsstring \<Rightarrow> error + 'o project) \<Rightarrow> (jsstring \<rightharpoonup> jsstring) \<Rightarrow> jsstring
     \<Rightarrow> error + 'o project" where
  "parse_file parse_text fs filename =
     (case fs filename of None \<Rightarrow> Inl LocateError | Some text \<Rightarrow> parse_text text)"

text \<open>
  Modelled from the spec: the call of the operation by \<open>patchMatchingFile\<close> of
  Helper/File, which is not part of the sources, for one located file (spec 4.3, steps
  1 to 4): the file's bytes are read and handed to the operation with the path.
  Nothing happens for a path without a file.
\<close>

definition apply_outcome ::
  "(jsstring \<Rightarrow> error + 'o project) \<Rightarrow> ('o project \<Rightarrow> jsstring) \<Rightarrow> jsstring \<Rightarrow> jsstring
     \<Rightarrow> (jsstring \<rightharpoonup> jsstring) \<Rightarrow> jsstring option outcome option" where
  "apply_outcome parse_text writeSync uuid filename fs =
     (case fs filename of
        None \<Rightarrow> None
      | Some contents \<Rightarrow>
          Some (patchXcodeProj (parse_file parse_text fs) writeSync uuid contents filename))"

text \<open>
  Modelled from the spec: the write of \<open>patchMatchingFile\<close> of Helper/File, which is
  not part of the sources (spec 4.3, steps 5 and 6): the new bytes are written to the
  same path when the operation hands new content back; on a no-op, a rejection or an
  escaped exception nothing is written.
\<close>

definition apply_to_file ::
  "(jsstring \<Rightarrow> error + 'o project) \<Rightarrow> ('o project \<Rightarrow> jsstring) \<Rightarrow> jsstring \<Rightarrow> jsstring
     \<Rightarrow> (jsstring \<rightharpoonup> jsstring) \<Rightarrow> (jsstring \<rightharpoonup> jsstring)" where
  "apply_to_file parse_text writeSync uuid filename fs =
     (case apply_outcome parse_text writeSync uuid filename fs of
        Some (Resolve (Some newContents)) \<Rightarrow> fs(filename \<mapsto> newContents)
      | _ \<Rightarrow> fs)"

section \<open>shouldConfigurePlatform\<close>

text \<open>
  The environment of the file helpers: the files with their contents, the result of
  \<open>glob.sync\<close> for a pattern, and \<open>path.join\<close> of Node.
\<close>

record file_env =
  files :: "jsstring \<rightharpoonup> jsstring"
  glob_sync :: "jsstring \<Rightarrow> jsstring list"
  path_join :: "jsstring list \<Rightarrow> jsstring"

text \<open>
  Modelled from the spec: \<open>exists\<close> of Helper/File, which is not part of the sources.
  The marker file is present when there is a file at its path (spec 4.4 and 6).
\<close>

definition exists :: "file_env \<Rightarrow> jsstring \<Rightarrow> bool" where
  "exists env path = (files env path \<noteq> None)"

text \<open>
  Modelled from the spec: \<open>matchesContent\<close> of Helper/File, which is not part of the
  sources. It scans every file the pattern locates and is true if the content of any of
  them matches the regular expression; a file that cannot be read is passed over
  (spec 4.1).
\<close>

definition matchesContent :: "file_env \<Rightarrow> jsstring \<Rightarrow> atom list \<Rightarrow> bool" where
  "matchesContent env globPattern contentPattern =
     list_ex (\<lambda>f. case files env f of None \<Rightarrow> False | Some c \<Rightarrow> regex_test contentPattern c)
       (glob_sync env globPattern)"

definition folderPrefix :: jsstring where
  "folderPrefix = js ''platforms''"

text \<open>Lines 59 to 78; the calls of \<open>this.debug\<close> only print.\<close>

definition shouldConfigurePlatform :: "file_env \<Rightarrow> bool \<Rightarrow> jsstring \<Rightarrow> bool" where
  "shouldConfigurePlatform env argv_uninstall platform =
     (let result0 = False;
          result1 = (if \<not> exists env (path_join env [folderPrefix, platform, js ''sentry.properties''])
                     then True else result0);
          result2 = (if \<not> matchesContent env (js ''**/*.xcodeproj/project.pbxproj'') content_pattern
                     then True else result1)
      in if argv_uninstall then \<not> result2 else result2)"

section \<open>emit: one unit of work per platform\<close>

text \<open>
  A promise ends in one of three ways: it is fulfilled with a value, it is rejected
  with an error, or it never settles (\<open>Pending\<close>). The last is what the promise of
  \<open>patchXcodeProj\<close> does when an exception escapes the callback of \<open>proj.parse\<close>
  (the outcome \<open>Throw\<close>): neither \<open>resolve\<close> nor \<open>reject\<close> is called.

  An asynchronous computation is modelled by the events it produces and by how the
  promise it returns ends. The two awaited calls, \<open>patchMatchingFile\<close> and
  \<open>addSentryProperties\<close>, act on the file system; how the promise of a call ends is
  given by \<open>io\<close>, so the lemmas hold for every behaviour of the file system
  (\<open>Rejected\<close> also stands for a call that throws before it returns its promise,
  which the surrounding \<open>try\<close> sees in the same way). \<open>await\<close> of a rejected
  promise throws, and the statement after an \<open>await\<close> runs only once the awaited
  promise has settled: \<open>Called\<close> and \<open>Settled\<close> bracket the call in the trace. At
  the \<open>await\<close> of a promise that never settles the computation stops for good:
  nothing after it runs, no handler of a surrounding \<open>try\<close> runs, and the promise of
  the computation never settles either. The units of different platforms interleave
  at their \<open>await\<close>s; the model keeps one trace per unit and says nothing on the
  order of events of different units.
\<close>

datatype 'a promise = Fulfilled 'a | Rejected error | Pending

datatype 'p call = PatchMatchingFile jsstring | AddSentryProperties jsstring 'p

datatype 'p event = Called "'p call" | Settled "'p call" "error option" | Green jsstring | Red error

type_synonym ('p, 'a) async = "'p event list \<times> 'a promise"

definition return_async :: "'a \<Rightarrow> ('p, 'a) async" where
  "return_async x = ([], Fulfilled x)"

definition bind_async :: "('p, 'a) async \<Rightarrow> ('a \<Rightarrow> ('p, 'b) async) \<Rightarrow> ('p, 'b) async" where
  "bind_async m f =
     (case m of
        (tr, Fulfilled x) \<Rightarrow> (case f x of (tr', r) \<Rightarrow> (tr @ tr', r))
      | (tr, Rejected e) \<Rightarrow> (tr, Rejected e)
      | (tr, Pending) \<Rightarrow> (tr, Pending))"

definition try_catch :: "('p, 'a) async \<Rightarrow> (error \<Rightarrow> ('p, 'a) async) \<Rightarrow> ('p, 'a) async" where
  "try_catch m handler =
     (case m of
        (tr, Fulfilled x) \<Rightarrow> (tr, Fulfilled x)
      | (tr, Rejected e) \<Rightarrow> (case handler e of (tr', r) \<Rightarrow> (tr @ tr', r))
      | (tr, Pending) \<Rightarrow> (tr, Pending))"

definition await_call :: "('p call \<Rightarrow> unit promise) \<Rightarrow> 'p call \<Rightarrow> ('p, unit) async" where
  "await_call io c =
     (case io c of
        Fulfilled u \<Rightarrow> ([Called c, Settled c None], Fulfilled ())
      | Rejected e \<Rightarrow> ([Called c, Settled c (Some e)], Rejected e)
      | Pending \<Rightarrow> ([Called c], Pending))"

definition green :: "jsstring \<Rightarrow> ('p, unit) async" where
  "green msg = ([Green msg], Fulfilled ())"

definition red :: "error \<Rightarrow> ('p, unit) async" where
  "red e = ([Red e], Fulfilled ())"

text \<open>Lines 30 to 43: the asynchronous function mapped over the platforms.\<close>

definition platform_unit ::
  "('p call \<Rightarrow> unit promise) \<Rightarrow> 'p \<Rightarrow> jsstring \<Rightarrow> ('p, unit) async" where
  "platform_unit io sentryCliProperties platform =
     try_catch
       (bind_async
          (if platform = js ''ios''
           then await_call io
                  (PatchMatchingFile (folderPrefix @ js ''/ios/*.xcodeproj/project.pbxproj''))
           else return_async ())
          (\<lambda>_. bind_async (await_call io (AddSentryProperties platform sentryCliProperties))
             (\<lambda>_. green (js ''Successfully set up '' @ platform @ js '' for cordova''))))
       (\<lambda>e. red e)"

text \<open>
  \<open>Promise.all\<close>: rejected when one of the promises is rejected (the model reports
  the first rejection in the order of the list), fulfilled with all the values when
  every promise is fulfilled, and never settled otherwise, which is when no promise
  is rejected and one of them never settles.
\<close>

fun all_fulfilled :: "'a promise list \<Rightarrow> 'a list promise" where
  "all_fulfilled [] = Fulfilled []"
| "all_fulfilled (Rejected e # rs) = Rejected e"
| "all_fulfilled (Fulfilled x # rs) =
     (case all_fulfilled rs of
        Fulfilled xs \<Rightarrow> Fulfilled (x # xs)
      | Rejected e \<Rightarrow> Rejected e
      | Pending \<Rightarrow> Pending)"
| "all_fulfilled (Pending # rs) =
     (case all_fulfilled rs of
        Fulfilled xs \<Rightarrow> Pending
      | Rejected e \<Rightarrow> Rejected e
      | Pending \<Rightarrow> Pending)"

definition promise_all :: "('p, 'a) async list \<Rightarrow> 'p event list list \<times> 'a list promise" where
  "promise_all units = (map fst units, all_fulfilled (map snd units))"

datatype emit_value = Units "unit list" | EmptyObject

text \<open>Lines 50 to 57.\<close>

definition uninstall :: "('p call \<Rightarrow> unit promise) \<Rightarrow> ('p, emit_value) async" where
  "uninstall io =
     bind_async (await_call io (PatchMatchingFile (js ''**/*.xcodeproj/project.pbxproj'')))
       (\<lambda>_. return_async EmptyObject)"

text \<open>
  Lines 22 to 48. \<open>sentryCliProperties\<close> is the result of
  \<open>convertAnswersToProperties\<close> and \<open>platforms\<close> that of \<open>getPlatforms\<close>, both of
  collaborators outside the sources. The result is the list of the units' traces and
  how the promise of \<open>emit\<close> ends: \<open>.then(resolve).catch(reject)\<close> hands on what
  \<open>Promise.all\<close> does, and does nothing while that promise is pending.
\<close>

definition emit ::
  "('p call \<Rightarrow> unit promise) \<Rightarrow> bool \<Rightarrow> 'p \<Rightarrow> jsstring list
     \<Rightarrow> 'p event list list \<times> emit_value promise" where
  "emit io argv_uninstall sentryCliProperties platforms =
     (if argv_uninstall then (case uninstall io of (tr, r) \<Rightarrow> ([tr], r))
      else
        (case promise_all (map (platform_unit io sentryCliProperties) platforms) of
           (trs, Fulfilled us) \<Rightarrow> (trs, Fulfilled (Units us))
         | (trs, Rejected e) \<Rightarrow> (trs, Rejected e)
         | (trs, Pending) \<Rightarrow> (trs, Pending)))"

text \<open>
  Modelled from the spec: the promise of \<open>patchMatchingFile\<close> of Helper/File, which
  is not part of the sources, for one located file whose write succeeds (spec 4.3):
  the helper waits for the promise of the operation, so its own promise is fulfilled
  when the operation resolves, rejected with the operation's error, and never settled
  when the promise of the operation never settles.
\<close>

definition patchMatchingFile_promise :: "'a outcome \<Rightarrow> unit promise" where
  "patchMatchingFile_promise out =
     (case out of Resolve x \<Rightarrow> Fulfilled () | Reject e \<Rightarrow> Rejected e | Throw e \<Rightarrow> Pending)"

section \<open>Helper/Package.ts\<close>

text \<open>
  The four functions of the semver library are parameters. \<open>valid\<close> and
  \<open>validRange\<close> return the cleaned string or \<open>null\<close> (\<open>None\<close>); JavaScript tests them
  for truthiness. The functions \<open>red\<close> and \<open>green\<close> print; the model returns the lines
  printed together with the result.
\<close>

record semver =
  sv_valid :: "jsstring \<Rightarrow> jsstring option"
  sv_validRange :: "jsstring \<Rightarrow> jsstring option"
  sv_satisfies :: "jsstring \<Rightarrow> jsstring \<Rightarrow> bool"
  sv_subset :: "jsstring \<Rightarrow> jsstring \<Rightarrow> bool"

record PackageDotJson =
  dependencies :: "(jsstring \<rightharpoonup> jsstring) option"
  devDependencies :: "(jsstring \<rightharpoonup> jsstring) option"

datatype log_line =
  NotInDependencies jsstring | InstallIt | OutsideRange jsstring jsstring | Compatible jsstring

text \<open>Lines 39 to 65.\<close>

definition fulfillsVersionRange :: "semver \<Rightarrow> jsstring \<Rightarrow> jsstring \<Rightarrow> bool \<Rightarrow> bool" where
  "fulfillsVersionRange sv version acceptableVersions canBeLatest =
     (if version = js ''latest'' then canBeLatest
      else
        (let (cleanedUserVersion, isRange) =
               (if truthy (sv_valid sv version) then (sv_valid sv version, False)
                else if truthy (sv_validRange sv version) then (sv_validRange sv version, True)
                else (None, False))
         in case cleanedUserVersion of
              None \<Rightarrow> False
            | Some cleaned \<Rightarrow>
                cleaned \<noteq> [] \<and>
                (if isRange then sv_subset sv cleaned acceptableVersions
                 else sv_satisfies sv cleaned acceptableVersions)))"

text \<open>
  Lines 16 and 17: optional chaining with \<open>?? ''\<close>; the package object itself may be
  \<open>null\<close> or \<open>undefined\<close>.
\<close>

definition listed_version ::
  "(jsstring \<rightharpoonup> jsstring) option \<Rightarrow> jsstring \<Rightarrow> jsstring" where
  "listed_version deps packageName =
     (case deps of
        None \<Rightarrow> []
      | Some d \<Rightarrow> (case d packageName of None \<Rightarrow> [] | Some v \<Rightarrow> v))"

definition checkPackageVersion ::
  "semver \<Rightarrow> PackageDotJson option \<Rightarrow> jsstring \<Rightarrow> jsstring \<Rightarrow> bool \<Rightarrow> log_line list \<times> bool" where
  "checkPackageVersion sv appPackage packageName acceptableVersions canBeLatest =
     (let depsVersion = listed_version (Option.bind appPackage dependencies) packageName;
          devDepsVersion = listed_version (Option.bind appPackage devDependencies) packageName
      in if depsVersion = [] \<and> devDepsVersion = []
         then ([NotInDependencies packageName, InstallIt], False)
         else if \<not> fulfillsVersionRange sv depsVersion acceptableVersions canBeLatest \<and>
                 \<not> fulfillsVersionRange sv devDepsVersion acceptableVersions canBeLatest
         then ([OutsideRange packageName acceptableVersions], False)
         else ([Compatible packageName], True))"

section \<open>Predicates of the statements\<close>

text \<open>
  A phase object has a body when its \<open>shellScript\<close> is a string, and it matches a
  pattern when that string does. \<open>scripts_of\<close> reads the section, empty when absent
  (the \<open>|| {}\<close> of lines 96 and 136). \<open>upload_phase\<close> is the phase that Apply
  hands to \<open>addBuildPhase\<close>.
\<close>

definition script_matches :: "atom list \<Rightarrow> phase \<Rightarrow> bool" where
  "script_matches pat p = (case shellScript p of None \<Rightarrow> False | Some body \<Rightarrow> regex_test pat body)"

definition has_body :: "phase \<Rightarrow> bool" where
  "has_body p = (shellScript p \<noteq> None)"

definition scripts_of :: "'o project \<Rightarrow> (jsstring \<times> entry) list" where
  "scripts_of proj = (case PBXShellScriptBuildPhase proj of None \<Rightarrow> [] | Some s \<Rightarrow> s)"

definition upload_label :: jsstring where
  "upload_label = js ''Upload Debug Symbols to Sentry''"

definition upload_phase :: phase where
  "upload_phase = \<lparr>isa = Some (js ''PBXShellScriptBuildPhase''), name = Some upload_label,
       shellPath = Some (js ''/bin/sh''), shellScript = Some upload_script\<rparr>"

text \<open>
  \<open>selected scripts key\<close>: the entry of \<open>key\<close> is a phase object whose script
  matches the pattern of line 109, which is when the loop of Revert deletes it. A
  comment key is a key of the form \<open>id_comment\<close>. In a descriptor of the data model
  (spec 3) the comment keys hold comment strings, and every shell-script phase has a
  script.
\<close>

definition selected :: "(jsstring \<times> entry) list \<Rightarrow> jsstring \<Rightarrow> bool" where
  "selected scripts key =
     (case map_of scripts key of
        Some (Phase script) \<Rightarrow> script_matches revert_pattern script
      | _ \<Rightarrow> False)"

definition is_comment_key :: "jsstring \<Rightarrow> bool" where
  "is_comment_key key = suffix (js ''_comment'') key"

definition comment_keys_hold_strings :: "(jsstring \<times> entry) list \<Rightarrow> bool" where
  "comment_keys_hold_strings scripts =
     list_all (\<lambda>kv. is_comment_key (fst kv) \<longrightarrow>
                 (case snd kv of Comment c \<Rightarrow> True | Phase p \<Rightarrow> False)) scripts"

definition scripts_have_bodies :: "(jsstring \<times> entry) list \<Rightarrow> bool" where
  "scripts_have_bodies scripts =
     list_all (\<lambda>kv. case snd kv of Comment c \<Rightarrow> True | Phase p \<Rightarrow> has_body p) scripts"

text \<open>
  \<open>unit_calls\<close> lists the calls that the unit of a platform awaits (lines 32 to 38),
  and \<open>success_message\<close> is the text of line 39.
\<close>

definition unit_calls :: "'p \<Rightarrow> jsstring \<Rightarrow> 'p call list" where
  "unit_calls sentryCliProperties platform =
     (if platform = js ''ios''
      then [PatchMatchingFile (folderPrefix @ js ''/ios/*.xcodeproj/project.pbxproj'')]
      else []) @ [AddSentryProperties platform sentryCliProperties]"

definition success_message :: "jsstring \<Rightarrow> jsstring" where
  "success_message platform = js ''Successfully set up '' @ platform @ js '' for cordova''"

section \<open>Examples\<close>

text \<open>
  A project with one target and one shell-script phase of the user's own, the same
  project after Apply with the new id \<open>B2\<close>, and a project whose upload phase is a
  build phase of the second target.
\<close>

definition run_phase :: phase where
  "run_phase = \<lparr>isa = Some (js ''PBXShellScriptBuildPhase''), name = Some (js ''Run''),
       shellPath = Some (js ''/bin/sh''), shellScript = Some (js ''echo hi'')\<rparr>"

definition example_project :: "unit project" where
  "example_project =
     \<lparr>PBXShellScriptBuildPhase =
        Some [(js ''A1'', Phase run_phase), (js ''A1_comment'', Comment (js ''Run''))],
      PBXNativeTarget =
        [(js ''T1'', \<lparr>target_name = js ''App'',
                      buildPhases = Some [\<lparr>ref_value = js ''A1'', ref_comment = js ''Run''\<rparr>]\<rparr>)],
      firstTarget = js ''T1'', otherObjects = ()\<rparr>"

definition patched_project :: "unit project" where
  "patched_project =
     \<lparr>PBXShellScriptBuildPhase =
        Some [(js ''A1'', Phase run_phase), (js ''A1_comment'', Comment (js ''Run'')),
              (js ''B2'', Phase upload_phase), (js ''B2_comment'', Comment upload_label)],
      PBXNativeTarget =
        [(js ''T1'', \<lparr>target_name = js ''App'',
                      buildPhases = Some [\<lparr>ref_value = js ''A1'', ref_comment = js ''Run''\<rparr>,
                                          \<lparr>ref_value = js ''B2'', ref_comment = upload_label\<rparr>]\<rparr>)],
      firstTarget = js ''T1'', otherObjects = ()\<rparr>"

definition two_target_project :: "unit project" where
  "two_target_project =
     \<lparr>PBXShellScriptBuildPhase =
        Some [(js ''B2'', Phase upload_phase), (js ''B2_comment'', Comment upload_label)],
      PBXNativeTarget =
        [(js ''T1'', \<lparr>target_name = js ''App'', buildPhases = Some []\<rparr>),
         (js ''T2'', \<lparr>target_name = js ''Extension'',
                      buildPhases = Some [\<lparr>ref_value = js ''B2'', ref_comment = upload_label\<rparr>]\<rparr>)],
      firstTarget = js ''T1'', otherObjects = ()\<rparr>"

text \<open>
  The library on two files: the text \<open>original\<close> stands for the file of
  \<open>example_project\<close> and the text \<open>patched\<close> for that of \<open>patched_project\<close>; each
  text parses to its project and each project is serialised to its text.
\<close>

definition example_parse_text :: "jsstring \<Rightarrow> error + unit project" where
  "example_parse_text text =
     (if text = js ''original'' then Inr example_project
      else if text = js ''patched'' then Inr patched_project
      else Inl ParseError)"

definition example_writeSync :: "unit project \<Rightarrow> jsstring" where
  "example_writeSync proj =
     (if proj = example_project then js ''original''
      else if proj = patched_project then js ''patched''
      else js ''other'')"

definition example_fs :: "jsstring \<rightharpoonup> jsstring" where
  "example_fs = [js ''project.pbxproj'' \<mapsto> js ''original'']"

text \<open>
  \<open>example_env\<close> is a project in which iOS is configured: the marker file exists and
  the project file holds the upload script (\<open>join_with_slash\<close> stands for
  \<open>path.join\<close> on these paths). In \<open>parse_fails\<close> the descriptor file of iOS does
  not parse and every other call succeeds; in \<open>all_succeed\<close> every call succeeds.
  \<open>example_semver\<close> knows one version and one range.
\<close>

fun join_with_slash :: "jsstring list \<Rightarrow> jsstring" where
  "join_with_slash [] = []"
| "join_with_slash [x] = x"
| "join_with_slash (x # y # ys) = x @ js ''/'' @ join_with_slash (y # ys)"

definition example_env :: file_env where
  "example_env =
     \<lparr>files = [js ''platforms/ios/sentry.properties'' \<mapsto> js ''defaults.org=acme'',
               js ''platforms/ios/App.xcodeproj/project.pbxproj'' \<mapsto> upload_script],
      glob_sync = (\<lambda>pattern. if pattern = js ''**/*.xcodeproj/project.pbxproj''
                              then [js ''platforms/ios/App.xcodeproj/project.pbxproj''] else []),
      path_join = join_with_slash\<rparr>"

definition parse_fails :: "unit call \<Rightarrow> unit promise" where
  "parse_fails c =
     (case c of PatchMatchingFile g \<Rightarrow> Rejected ParseError | AddSentryProperties p q \<Rightarrow> Fulfilled ())"

definition all_succeed :: "unit call \<Rightarrow> unit promise" where
  "all_succeed c = Fulfilled ()"

text \<open>
  \<open>bodyless_project\<close> is \<open>example_project\<close> with the script of its phase missing.
  In \<open>callback_throws\<close> the descriptor file of iOS, with the text \<open>bodyless\<close>,
  parses to it, and the properties files are written without an error.
\<close>

definition bodyless_phase :: phase where
  "bodyless_phase = run_phase\<lparr>shellScript := None\<rparr>"

definition bodyless_project :: "unit project" where
  "bodyless_project =
     \<lparr>PBXShellScriptBuildPhase =
        Some [(js ''A1'', Phase bodyless_phase), (js ''A1_comment'', Comment (js ''Run''))],
      PBXNativeTarget =
        [(js ''T1'', \<lparr>target_name = js ''App'',
                      buildPhases = Some [\<lparr>ref_value = js ''A1'', ref_comment = js ''Run''\<rparr>]\<rparr>)],
      firstTarget = js ''T1'', otherObjects = ()\<rparr>"

definition callback_throws :: "unit call \<Rightarrow> unit promise" where
  "callback_throws c =
     (case c of
        PatchMatchingFile g \<Rightarrow>
          patchMatchingFile_promise
            (patchXcodeProj (\<lambda>f. Inr bodyless_project) example_writeSync (js ''B2'')
               (js ''bodyless'') (js ''platforms/ios/App.xcodeproj/project.pbxproj''))
      | AddSentryProperties p q \<Rightarrow> Fulfilled ())"

definition example_semver :: semver where
  "example_semver =
     \<lparr>sv_valid = (\<lambda>v. if v = js ''1.2.3'' then Some (js ''1.2.3'') else None),
      sv_validRange = (\<lambda>v. if v = js ''1.2.3'' then Some (js ''1.2.3'')
                            else if v = js ''^1.0.0'' then Some (js ''>=1.0.0 <2.0.0-0'') else None),
      sv_satisfies = (\<lambda>v r. v = js ''1.2.3'' \<and> r = js ''>=1.0.0''),
      sv_subset = (\<lambda>sub dom. sub = js ''>=1.0.0 <2.0.0-0'' \<and> dom = js ''>=1.0.0'')\<rparr>"

definition example_package :: PackageDotJson where
  "example_package =
     \<lparr>dependencies = Some [js ''cordova'' \<mapsto> js ''bogus'', js ''left-pad'' \<mapsto> js ''latest''],
      devDependencies = Some [js ''cordova'' \<mapsto> js ''^1.0.0'']\<rparr>"

section \<open>Properties of the matcher\<close>

lemma match_here_append_left:
  "match_here (r @ r') prev s \<Longrightarrow> match_here r prev s"
  by (induction r prev s rule: match_here.induct) auto

lemma match_here_literal:
  "match_here (map Chr a @ r) prev s \<Longrightarrow>
     \<exists>t. s = a @ t \<and> match_here r (if a = [] then prev else Some (last a)) t"
proof (induction a arbitrary: prev s)
  case Nil
  then show ?case by simp
next
  case (Cons c a)
  then obtain x s' where s: "s = x # s'"
    by (cases s) auto
  with Cons.prems have x: "x = c" and m: "match_here (map Chr a @ r) (Some c) s'"
    by auto
  from Cons.IH [OF m] obtain t where
    t: "s' = a @ t" "match_here r (if a = [] then Some c else Some (last a)) t"
    by blast
  then show ?case using s x by auto
qed

lemma match_here_ignore_case:
  "match_here (map Chr a) prev s \<Longrightarrow> match_here (map ChrI a) prev s"
proof (induction a arbitrary: prev s)
  case Nil
  then show ?case by simp
next
  case (Cons c a)
  then show ?case by (cases s) auto
qed

lemma search_iff:
  "search r prev s \<longleftrightarrow>
     (\<exists>u v. s = u @ v \<and> match_here r (if u = [] then prev else Some (last u)) v)"
proof (induction s arbitrary: prev)
  case Nil
  then show ?case by simp
next
  case (Cons x s)
  show ?case
  proof
    assume "search r prev (x # s)"
    then consider "match_here r prev (x # s)" | "search r (Some x) s"
      by auto
    then show "\<exists>u v. x # s = u @ v \<and> match_here r (if u = [] then prev else Some (last u)) v"
    proof cases
      case 1
      then have "x # s = [] @ (x # s) \<and>
          match_here r (if ([]::jsstring) = [] then prev else Some (last [])) (x # s)"
        by simp
      then show ?thesis by blast
    next
      case 2
      then obtain u v where uv: "s = u @ v"
          "match_here r (if u = [] then Some x else Some (last u)) v"
        using Cons.IH by blast
      then have "x # s = (x # u) @ v \<and>
          match_here r (if x # u = [] then prev else Some (last (x # u))) v"
        by auto
      then show ?thesis by blast
    qed
  next
    assume "\<exists>u v. x # s = u @ v \<and> match_here r (if u = [] then prev else Some (last u)) v"
    then obtain u v where uv: "x # s = u @ v"
        "match_here r (if u = [] then prev else Some (last u)) v"
      by blast
    show "search r prev (x # s)"
    proof (cases u)
      case Nil
      with uv show ?thesis by auto
    next
      case (Cons y u')
      with uv have "s = u' @ v"
          "match_here r (if u' = [] then Some x else Some (last u')) v"
        by auto
      then have "search r (Some x) s"
        using Cons.IH by blast
      then show ?thesis by simp
    qed
  qed
qed

lemma revert_pattern_split:
  "revert_pattern = map Chr (js ''@sentry/cli/bin/'') @ (apply_pattern @ [WordB])"
  by (simp add: revert_pattern_def apply_pattern_def js_def)

lemma apply_pattern_split:
  "apply_pattern = map Chr (js ''sentry-cli'') @ ([WhitePlus] @ map Chr (js ''upload-dsym''))"
  by (simp add: apply_pattern_def)

lemma revert_implies_apply:
  assumes "regex_test revert_pattern s"
  shows "regex_test apply_pattern s"
proof -
  let ?a = "js ''@sentry/cli/bin/''"
  from assms obtain u v where uv: "s = u @ v"
      "match_here revert_pattern (if u = [] then None else Some (last u)) v"
    unfolding regex_test_def search_iff by blast
  from uv(2) obtain t where t: "v = ?a @ t"
      "match_here (apply_pattern @ [WordB]) (if ?a = [] then (if u = [] then None else Some (last u)) else Some (last ?a)) t"
    unfolding revert_pattern_split using match_here_literal by blast
  have ne: "u @ ?a \<noteq> []"
    by (simp add: js_def)
  have "match_here apply_pattern (Some (last ?a)) t"
    using t(2) match_here_append_left by (simp add: js_def)
  then have "match_here apply_pattern (if u @ ?a = [] then None else Some (last (u @ ?a))) t"
    using ne by (simp add: js_def)
  moreover have "s = (u @ ?a) @ t"
    using uv(1) t(1) by simp
  ultimately show ?thesis
    unfolding regex_test_def search_iff by blast
qed

lemma apply_implies_content:
  assumes "regex_test apply_pattern s"
  shows "regex_test content_pattern s"
proof -
  from assms obtain u v where uv: "s = u @ v"
      "match_here apply_pattern (if u = [] then None else Some (last u)) v"
    unfolding regex_test_def search_iff by blast
  from uv(2) have "match_here (map Chr (js ''sentry-cli'')) (if u = [] then None else Some (last u)) v"
    unfolding apply_pattern_split by (rule match_here_append_left)
  then have "match_here content_pattern (if u = [] then None else Some (last u)) v"
    unfolding content_pattern_def by (rule match_here_ignore_case)
  with uv(1) show ?thesis
    unfolding regex_test_def search_iff by blast
qed

lemma upload_script_matches_revert: "regex_test revert_pattern upload_script"
proof -
  let ?u = "js ''export SENTRY_PROPERTIES=sentry.properties'' @ [92, 110] @
            js ''../../plugins/cordova-plugin-sentry/node_modules/''"
  let ?v = "js ''@sentry/cli/bin/sentry-cli upload-dsym''"
  have "upload_script = ?u @ ?v"
    by (simp add: upload_script_def js_def)
  moreover have "match_here revert_pattern (if ?u = [] then None else Some (last ?u)) ?v"
    by (simp add: revert_pattern_def js_def is_space_def is_word_def)
  ultimately show ?thesis
    unfolding regex_test_def search_iff by blast
qed

lemma upload_script_matches_apply: "regex_test apply_pattern upload_script"
  using upload_script_matches_revert by (rule revert_implies_apply)

lemma upload_script_matches_content: "regex_test content_pattern upload_script"
  using upload_script_matches_apply by (rule apply_implies_content)

section \<open>Association lists\<close>

lemma update_set_subset: "set (AList.update k v al) \<subseteq> insert (k, v) (set al)"
  by (induction al) auto

lemma update_mem: "(k, v) \<in> set (AList.update k v al)"
  by (induction al) auto

lemma update_keeps: "(k', v') \<in> set al \<Longrightarrow> k' \<noteq> k \<Longrightarrow> (k', v') \<in> set (AList.update k v al)"
  by (induction al) auto


lemma update_same: "map_of al k = Some v \<Longrightarrow> AList.update k v al = al"
  by (induction al) (auto split: if_splits)

lemma update_update: "AList.update k v (AList.update k v' al) = AList.update k v al"
  by (induction al) auto

lemma map_of_filter_key:
  "map_of (filter (\<lambda>kv. Q (fst kv)) S) k = (if Q k then map_of S k else None)"
  by (induction S) auto

lemma set_map_filter_list: "set (List.map_filter f xs) = {y. \<exists>x\<in>set xs. f x = Some y}"
  by (induction xs) (auto simp: map_filter_simps split: option.splits)


section \<open>The loop of Apply\<close>

lemma loop_False_iff:
  "addNewXcodeBuildPhaseForSymbols_loop ps = Inr False \<longleftrightarrow>
     (\<forall>p\<in>set ps. \<exists>b. shellScript p = Some b \<and> \<not> regex_test apply_pattern b)"
  by (induction ps) (auto split: option.splits)

lemma loop_True_if:
  "\<forall>p\<in>set ps. shellScript p \<noteq> None \<Longrightarrow>
   \<exists>p\<in>set ps. \<exists>b. shellScript p = Some b \<and> regex_test apply_pattern b \<Longrightarrow>
   addNewXcodeBuildPhaseForSymbols_loop ps = Inr True"
  by (induction ps) (auto split: option.splits)

lemma loop_False_iff2:
  "addNewXcodeBuildPhaseForSymbols_loop ps = Inr False \<longleftrightarrow>
     (\<forall>p\<in>set ps. has_body p \<and> \<not> script_matches apply_pattern p)"
  unfolding loop_False_iff by (auto simp: has_body_def script_matches_def)


lemma phase_filter_Some:
  "(case snd kv of Comment c \<Rightarrow> None | Phase val \<Rightarrow> if truthy (isa val) then Some val else None) = Some p
     \<longleftrightarrow> snd kv = Phase p \<and> truthy (isa p)"
  by (cases "snd kv") auto

lemma set_buildScripts:
  "set (buildScripts proj) =
     (case PBXShellScriptBuildPhase proj of
        None \<Rightarrow> {}
      | Some scripts \<Rightarrow> {p. \<exists>k. (k, Phase p) \<in> set scripts \<and> truthy (isa p)})"
proof (cases "PBXShellScriptBuildPhase proj")
  case None
  then show ?thesis by (simp add: buildScripts_def)
next
  case (Some scripts)
  have "set (buildScripts proj) = {p. \<exists>kv\<in>set scripts. snd kv = Phase p \<and> truthy (isa p)}"
    by (simp add: buildScripts_def Some set_map_filter_list phase_filter_Some)
  also have "\<dots> = {p. \<exists>k. (k, Phase p) \<in> set scripts \<and> truthy (isa p)}"
    by force
  finally show ?thesis by (simp add: Some)
qed

lemma addBuildPhase_scripts:
  "PBXShellScriptBuildPhase (addBuildPhase uuid ty c pa sc proj) =
     Some (AList.update (uuid @ js ''_comment'') (Comment c)
       (AList.update uuid (Phase \<lparr>isa = Some ty, name = Some c, shellPath = Some pa, shellScript = Some sc\<rparr>)
          (case PBXShellScriptBuildPhase proj of None \<Rightarrow> [] | Some s \<Rightarrow> s)))"
  by (simp add: addBuildPhase_def Let_def)

lemma addNew_cases:
  "addNewXcodeBuildPhaseForSymbols uuid scripts proj =
     (case addNewXcodeBuildPhaseForSymbols_loop scripts of
        Inl e \<Rightarrow> Inl e
      | Inr b \<Rightarrow> if b then Inr proj
                 else Inr (addBuildPhase uuid (js ''PBXShellScriptBuildPhase'')
                 upload_label (js ''/bin/sh'') upload_script proj))"
  by (auto simp: addNewXcodeBuildPhaseForSymbols_def upload_label_def split: sum.splits bool.splits)

lemma addNew_Inl:
  "addNewXcodeBuildPhaseForSymbols uuid scripts proj = Inl e \<longleftrightarrow>
   addNewXcodeBuildPhaseForSymbols_loop scripts = Inl e"
  by (simp add: addNew_cases split: sum.splits)

lemma apply_stable:
  assumes "addNewXcodeBuildPhaseForSymbols uuid (buildScripts proj) proj = Inr proj'"
  shows "addNewXcodeBuildPhaseForSymbols_loop (buildScripts proj') = Inr True"
proof (cases "addNewXcodeBuildPhaseForSymbols_loop (buildScripts proj)")
  case (Inl e)
  with assms show ?thesis by (simp add: addNewXcodeBuildPhaseForSymbols_def)
next
  case (Inr b)
  show ?thesis
  proof (cases b)
    case True
    with Inr assms show ?thesis by (simp add: addNewXcodeBuildPhaseForSymbols_def)
  next
    case False
    let ?np = "\<lparr>isa = Some (js ''PBXShellScriptBuildPhase''),
       name = Some (js ''Upload Debug Symbols to Sentry''),
       shellPath = Some (js ''/bin/sh''), shellScript = Some upload_script\<rparr>"
    let ?old = "case PBXShellScriptBuildPhase proj of None \<Rightarrow> [] | Some s \<Rightarrow> s"
    let ?new = "AList.update (uuid @ js ''_comment'') (Comment (js ''Upload Debug Symbols to Sentry''))
       (AList.update uuid (Phase ?np) ?old)"
    from False Inr assms have p': "proj' = addBuildPhase uuid (js ''PBXShellScriptBuildPhase'')
                 (js ''Upload Debug Symbols to Sentry'') (js ''/bin/sh'') upload_script proj"
      by (simp add: addNewXcodeBuildPhaseForSymbols_def)
    then have sc: "PBXShellScriptBuildPhase proj' = Some ?new"
      by (simp add: addBuildPhase_scripts)
    have old: "\<forall>p\<in>set (buildScripts proj). \<exists>b. shellScript p = Some b \<and> \<not> regex_test apply_pattern b"
      using False Inr loop_False_iff by simp
    have ne: "uuid \<noteq> uuid @ js ''_comment''"
      by (simp add: js_def)
    have "(uuid, Phase ?np) \<in> set ?new"
      using update_mem [of uuid "Phase ?np" ?old] ne update_keeps by metis
    then have in_new: "?np \<in> set (buildScripts proj')"
      by (auto simp: set_buildScripts sc truthy_def js_def)
    have sub: "set (buildScripts proj') \<subseteq> insert ?np (set (buildScripts proj))"
    proof
      fix p assume "p \<in> set (buildScripts proj')"
      then obtain k where k: "(k, Phase p) \<in> set ?new" "truthy (isa p)"
        by (auto simp: set_buildScripts sc)
      then have "(k, Phase p) \<in> insert (uuid, Phase ?np) (set ?old)"
        using update_set_subset [of "uuid @ js ''_comment''" _ "AList.update uuid (Phase ?np) ?old"]
          update_set_subset [of uuid "Phase ?np" ?old] by auto
      then show "p \<in> insert ?np (set (buildScripts proj))"
        using k(2) by (auto simp: set_buildScripts split: option.splits)
    qed
    have "\<forall>p\<in>set (buildScripts proj'). shellScript p \<noteq> None"
    proof
      fix p assume "p \<in> set (buildScripts proj')"
      with sub have "p = ?np \<or> p \<in> set (buildScripts proj)"
        by blast
      then show "shellScript p \<noteq> None"
        using old by auto
    qed
    moreover have "\<exists>p\<in>set (buildScripts proj'). \<exists>b. shellScript p = Some b \<and> regex_test apply_pattern b"
      using in_new upload_script_matches_apply by force
    ultimately show ?thesis
      by (rule loop_True_if)
  qed
qed

lemma apply_stable2:
  assumes "addNewXcodeBuildPhaseForSymbols uuid (buildScripts proj) proj = Inr proj'"
  shows "addNewXcodeBuildPhaseForSymbols uuid' (buildScripts proj') proj' = Inr proj'"
  using apply_stable [OF assms] by (simp add: addNew_cases)

lemma patchXcodeProj_rerun:
  assumes p: "parse filename = Inr proj"
    and a: "addNewXcodeBuildPhaseForSymbols uuid (buildScripts proj) proj = Inr proj'"
    and p': "parse' filename = Inr proj'"
  shows "patchXcodeProj parse' writeSync uuid' (writeSync proj') filename = Resolve None"
  using apply_stable2 [OF a, of uuid'] p' by (simp add: patchXcodeProj_def)

section \<open>The loop of Revert\<close>

lemma splice_first_distinct:
  "distinct (map ref_value ps) \<Longrightarrow> splice_first key ps = filter (\<lambda>r. ref_value r \<noteq> key) ps"
proof (induction ps)
  case Nil
  then show ?case by simp
next
  case (Cons r rs)
  show ?case
  proof (cases "ref_value r = key")
    case True
    from Cons.prems have "ref_value r \<notin> ref_value ` set rs"
      by simp
    with True have "\<forall>r'\<in>set rs. ref_value r' \<noteq> key"
      by blast
    then have "filter (\<lambda>r. ref_value r \<noteq> key) rs = rs"
      by (simp add: filter_id_conv)
    with True show ?thesis by simp
  next
    case False
    with Cons show ?thesis by simp
  qed
qed

lemma comment_key_not_phase:
  assumes "comment_keys_hold_strings S"
  shows "map_of S (key @ js ''_comment'') \<noteq> Some (Phase p)"
proof
  assume "map_of S (key @ js ''_comment'') = Some (Phase p)"
  then have "(key @ js ''_comment'', Phase p) \<in> set S"
    by (rule map_of_SomeD)
  with assms show False
    by (fastforce simp: comment_keys_hold_strings_def list_all_iff is_comment_key_def suffix_def)
qed

lemma not_selected_comment_key:
  "comment_keys_hold_strings S \<Longrightarrow> \<not> selected S (key @ js ''_comment'')"
  using comment_key_not_phase [of S key]
  by (auto simp: selected_def split: option.splits entry.splits)

lemma map_of_deleted:
  "map_of (AList.delete (key @ js ''_comment'') (AList.delete key S)) k =
     (if k = key \<or> k = key @ js ''_comment'' then None else map_of S k)"
  by (simp add: delete_conv')

lemma deleted_filter:
  "AList.delete (key @ js ''_comment'') (AList.delete key S) =
     filter (\<lambda>kv. fst kv \<noteq> key \<and> fst kv \<noteq> key @ js ''_comment'') S"
  by (induction S) auto

lemma selected_deleted:
  assumes "comment_keys_hold_strings S"
  shows "selected (AList.delete (key @ js ''_comment'') (AList.delete key S)) k
           \<longleftrightarrow> selected S k \<and> k \<noteq> key"
  using not_selected_comment_key [OF assms, of key]
  by (auto simp: selected_def map_of_deleted)

lemma comment_keys_deleted:
  "comment_keys_hold_strings S \<Longrightarrow>
   comment_keys_hold_strings (AList.delete (key @ js ''_comment'') (AList.delete key S))"
  by (simp add: deleted_filter comment_keys_hold_strings_def list_all_iff)

lemma bodies_deleted:
  "scripts_have_bodies S \<Longrightarrow>
   scripts_have_bodies (AList.delete (key @ js ''_comment'') (AList.delete key S))"
  by (simp add: deleted_filter scripts_have_bodies_def list_all_iff)

lemma bodies_lookup:
  "scripts_have_bodies S \<Longrightarrow> map_of S k = Some (Phase p) \<Longrightarrow> \<exists>b. shellScript p = Some b"
  by (auto simp: scripts_have_bodies_def list_all_iff has_body_def dest!: map_of_SomeD)

text \<open>One step of the loop, by what the entry of the key is.\<close>

lemma loop_skip:
  assumes "scripts_have_bodies S" and "\<not> selected S key"
  shows "unpatchXcodeBuildScripts_loop ft (key # ks) S T = unpatchXcodeBuildScripts_loop ft ks S T"
proof (cases "map_of S key")
  case None
  then show ?thesis by simp
next
  case (Some e)
  show ?thesis
  proof (cases e)
    case (Comment c)
    with Some show ?thesis by simp
  next
    case (Phase p)
    with Some assms(1) obtain b where b: "shellScript p = Some b"
      using bodies_lookup by blast
    with assms(2) Some Phase have "\<not> regex_test revert_pattern b"
      by (simp add: selected_def script_matches_def)
    with Some Phase b show ?thesis by simp
  qed
qed

lemma loop_select:
  assumes "selected S key" and "map_of T ft = Some t"
  shows "unpatchXcodeBuildScripts_loop ft (key # ks) S T =
     unpatchXcodeBuildScripts_loop ft ks (AList.delete (key @ js ''_comment'') (AList.delete key S))
       (case buildPhases t of
          None \<Rightarrow> T
        | Some phases \<Rightarrow> AList.update ft (t\<lparr>buildPhases := Some (splice_first key phases)\<rparr>) T)"
  using assms
  by (auto simp: selected_def script_matches_def Let_def split: option.splits entry.splits)

lemma target_unchanged:
  "t\<lparr>buildPhases := map_option (\<lambda>ps. ps) (buildPhases t)\<rparr> = t"
  by (cases "buildPhases t") simp_all

lemma unpatch_loop_result:
  assumes "map_of T ft = Some t" and "comment_keys_hold_strings S" and "scripts_have_bodies S"
    and "\<forall>ps. buildPhases t = Some ps \<longrightarrow> distinct (map ref_value ps)"
  shows "unpatchXcodeBuildScripts_loop ft ks S T =
     Inr (filter (\<lambda>kv. \<not> (\<exists>k\<in>set ks. selected S k \<and>
                              (fst kv = k \<or> fst kv = k @ js ''_comment''))) S,
          AList.update ft
            (t\<lparr>buildPhases :=
                 map_option (filter (\<lambda>r. \<not> (ref_value r \<in> set ks \<and> selected S (ref_value r))))
                   (buildPhases t)\<rparr>) T)"
  using assms
proof (induction ks arbitrary: S T t)
  case Nil
  then show ?case
    by (simp add: target_unchanged update_same)
next
  case (Cons key ks)
  show ?case
  proof (cases "selected S key")
    case False
    have "unpatchXcodeBuildScripts_loop ft (key # ks) S T = unpatchXcodeBuildScripts_loop ft ks S T"
      using Cons.prems(3) False by (rule loop_skip)
    also have "\<dots> = Inr (filter (\<lambda>kv. \<not> (\<exists>k\<in>set ks. selected S k \<and>
                              (fst kv = k \<or> fst kv = k @ js ''_comment''))) S,
          AList.update ft
            (t\<lparr>buildPhases :=
                 map_option (filter (\<lambda>r. \<not> (ref_value r \<in> set ks \<and> selected S (ref_value r))))
                   (buildPhases t)\<rparr>) T)"
      using Cons.prems by (rule Cons.IH)
    also have "(\<lambda>kv. \<not> (\<exists>k\<in>set ks. selected S k \<and> (fst kv = k \<or> fst kv = k @ js ''_comment'')))
        = (\<lambda>kv. \<not> (\<exists>k\<in>set (key # ks). selected S k \<and> (fst kv = k \<or> fst kv = k @ js ''_comment'')))"
      using False by auto
    also have "(\<lambda>r. \<not> (ref_value r \<in> set ks \<and> selected S (ref_value r)))
        = (\<lambda>r. \<not> (ref_value r \<in> set (key # ks) \<and> selected S (ref_value r)))"
      using False by auto
    finally show ?thesis .
  next
    case True
    let ?S1 = "AList.delete (key @ js ''_comment'') (AList.delete key S)"
    let ?t1 = "t\<lparr>buildPhases := map_option (splice_first key) (buildPhases t)\<rparr>"
    let ?T1 = "case buildPhases t of
          None \<Rightarrow> T
        | Some phases \<Rightarrow> AList.update ft (t\<lparr>buildPhases := Some (splice_first key phases)\<rparr>) T"
    have sel: "\<And>k. selected ?S1 k \<longleftrightarrow> selected S k \<and> k \<noteq> key"
      using Cons.prems(2) by (rule selected_deleted)
    have T1: "?T1 = AList.update ft ?t1 T"
    proof (cases "buildPhases t")
      case None
      then have "?t1 = t" by simp
      with None Cons.prems(1) show ?thesis by (simp add: update_same)
    next
      case (Some ps)
      then show ?thesis by simp
    qed
    have m1: "map_of ?T1 ft = Some ?t1"
      by (simp add: T1 update_conv')
    have d1: "\<forall>ps. buildPhases ?t1 = Some ps \<longrightarrow> distinct (map ref_value ps)"
      using Cons.prems(4) by (cases "buildPhases t") (auto simp: splice_first_distinct distinct_map_filter)
    have step: "unpatchXcodeBuildScripts_loop ft (key # ks) S T = unpatchXcodeBuildScripts_loop ft ks ?S1 ?T1"
      using True Cons.prems(1) by (rule loop_select)
    have ih: "unpatchXcodeBuildScripts_loop ft ks ?S1 ?T1 =
       Inr (filter (\<lambda>kv. \<not> (\<exists>k\<in>set ks. selected ?S1 k \<and>
                              (fst kv = k \<or> fst kv = k @ js ''_comment''))) ?S1,
          AList.update ft
            (?t1\<lparr>buildPhases :=
                 map_option (filter (\<lambda>r. \<not> (ref_value r \<in> set ks \<and> selected ?S1 (ref_value r))))
                   (buildPhases ?t1)\<rparr>) ?T1)"
      using m1 comment_keys_deleted [OF Cons.prems(2)] bodies_deleted [OF Cons.prems(3)] d1
      by (rule Cons.IH)
    have scripts: "filter (\<lambda>kv. \<not> (\<exists>k\<in>set ks. selected ?S1 k \<and>
                              (fst kv = k \<or> fst kv = k @ js ''_comment''))) ?S1
        = filter (\<lambda>kv. \<not> (\<exists>k\<in>set (key # ks). selected S k \<and>
                              (fst kv = k \<or> fst kv = k @ js ''_comment''))) S"
    proof -
      have "filter (\<lambda>kv. \<not> (\<exists>k\<in>set ks. selected ?S1 k \<and>
                              (fst kv = k \<or> fst kv = k @ js ''_comment''))) ?S1
          = filter (\<lambda>kv. \<not> (\<exists>k\<in>set ks. (selected S k \<and> k \<noteq> key) \<and>
                              (fst kv = k \<or> fst kv = k @ js ''_comment''))) ?S1"
        by (simp only: sel)
      also have "\<dots> = filter (\<lambda>kv. \<not> (\<exists>k\<in>set ks. (selected S k \<and> k \<noteq> key) \<and>
                              (fst kv = k \<or> fst kv = k @ js ''_comment'')))
            (filter (\<lambda>kv. fst kv \<noteq> key \<and> fst kv \<noteq> key @ js ''_comment'') S)"
        by (simp only: deleted_filter)
      also have "\<dots> = filter (\<lambda>kv. \<not> (\<exists>k\<in>set (key # ks). selected S k \<and>
                              (fst kv = k \<or> fst kv = k @ js ''_comment''))) S"
        unfolding filter_filter
        by (rule filter_cong [OF refl]) (use True in auto)
      finally show ?thesis .
    qed
    have phases: "map_option (filter (\<lambda>r. \<not> (ref_value r \<in> set ks \<and> selected ?S1 (ref_value r))))
                   (buildPhases ?t1)
        = map_option (filter (\<lambda>r. \<not> (ref_value r \<in> set (key # ks) \<and> selected S (ref_value r))))
                   (buildPhases t)"
    proof (cases "buildPhases t")
      case None
      then show ?thesis by simp
    next
      case (Some ps)
      with Cons.prems(4) have "splice_first key ps = filter (\<lambda>r. ref_value r \<noteq> key) ps"
        by (simp add: splice_first_distinct)
      moreover have "filter (\<lambda>r. \<not> (ref_value r \<in> set ks \<and> selected ?S1 (ref_value r)))
            (filter (\<lambda>r. ref_value r \<noteq> key) ps)
          = filter (\<lambda>r. \<not> (ref_value r \<in> set (key # ks) \<and> selected S (ref_value r))) ps"
        unfolding filter_filter sel
        by (rule filter_cong [OF refl]) (use True in auto)
      ultimately show ?thesis using Some by simp
    qed
    have targets: "AList.update ft
            (?t1\<lparr>buildPhases :=
                 map_option (filter (\<lambda>r. \<not> (ref_value r \<in> set ks \<and> selected ?S1 (ref_value r))))
                   (buildPhases ?t1)\<rparr>) ?T1
        = AList.update ft
            (t\<lparr>buildPhases :=
                 map_option (filter (\<lambda>r. \<not> (ref_value r \<in> set (key # ks) \<and> selected S (ref_value r))))
                   (buildPhases t)\<rparr>) T"
      unfolding phases by (simp add: T1 update_update)
    show ?thesis
      unfolding step ih scripts targets ..
  qed
qed

lemma selected_in_keys: "selected S k \<Longrightarrow> k \<in> fst ` set S"
  by (auto simp: selected_def split: option.splits dest!: map_of_SomeD intro: rev_image_eqI)

lemma loop_nothing_selected:
  assumes "scripts_have_bodies S" and "\<forall>k\<in>set ks. \<not> selected S k"
  shows "unpatchXcodeBuildScripts_loop ft ks S T = Inr (S, T)"
  using assms(2)
proof (induction ks)
  case Nil
  then show ?case by simp
next
  case (Cons key ks)
  then show ?case
    using loop_skip [OF assms(1), of key ft ks T] by simp
qed

lemma loop_keeps_phase:
  "unpatchXcodeBuildScripts_loop ft ks S T = Inr (S', T') \<Longrightarrow> map_of S k = Some (Phase p) \<Longrightarrow>
   \<not> script_matches revert_pattern p \<Longrightarrow> \<not> is_comment_key k \<Longrightarrow> map_of S' k = Some (Phase p)"
proof (induction ks arbitrary: S T)
  case Nil
  then show ?case by simp
next
  case (Cons key ks)
  show ?case
  proof (cases "selected S key")
    case False
    with Cons.prems(1) have "unpatchXcodeBuildScripts_loop ft ks S T = Inr (S', T')"
      by (auto simp: selected_def script_matches_def split: option.splits entry.splits if_splits)
    then show ?thesis
      using Cons.prems(2-4) by (rule Cons.IH)
  next
    case True
    let ?S1 = "AList.delete (key @ js ''_comment'') (AList.delete key S)"
    from True Cons.prems(1) obtain T1 where
      "unpatchXcodeBuildScripts_loop ft ks ?S1 T1 = Inr (S', T')"
      by (auto simp: selected_def script_matches_def Let_def split: option.splits entry.splits if_splits)
    moreover have "k \<noteq> key"
      using True Cons.prems(2,3) by (auto simp: selected_def)
    moreover have "k \<noteq> key @ js ''_comment''"
      using Cons.prems(4) by (auto simp: is_comment_key_def suffix_def)
    ultimately show ?thesis
      using Cons.prems(2-4) Cons.IH [of ?S1 T1] by (simp add: map_of_deleted)
  qed
qed

section \<open>What the two operations leave alone\<close>

lemma unpatch_frame:
  assumes "unpatchXcodeBuildScripts proj = Inr proj'"
  shows "otherObjects proj' = otherObjects proj \<and> firstTarget proj' = firstTarget proj"
  using assms
  by (auto simp: unpatchXcodeBuildScripts_def split: option.splits sum.splits)

lemma unpatch_keeps_phase:
  assumes "unpatchXcodeBuildScripts proj = Inr proj'"
    and "map_of (scripts_of proj) k = Some (Phase p)"
    and "\<not> script_matches revert_pattern p" and "\<not> is_comment_key k"
  shows "map_of (scripts_of proj') k = Some (Phase p)"
proof (cases "PBXShellScriptBuildPhase proj")
  case None
  with assms(2) show ?thesis by (simp add: scripts_of_def)
next
  case (Some scripts)
  with assms(1) obtain S' T' where
    l: "unpatchXcodeBuildScripts_loop (firstTarget proj) (map fst scripts) scripts
          (PBXNativeTarget proj) = Inr (S', T')"
    and p': "proj' = proj\<lparr>PBXShellScriptBuildPhase := Some S', PBXNativeTarget := T'\<rparr>"
    by (auto simp: unpatchXcodeBuildScripts_def split: sum.splits)
  from assms(2) Some have "map_of scripts k = Some (Phase p)"
    by (simp add: scripts_of_def)
  with l have "map_of S' k = Some (Phase p)"
    using assms(3,4) by (rule loop_keeps_phase)
  then show ?thesis
    by (simp add: p' scripts_of_def)
qed

lemma unpatch_ignores_other_objects:
  "unpatchXcodeBuildScripts (proj\<lparr>otherObjects := other\<rparr>) =
     map_sum id (\<lambda>p. p\<lparr>otherObjects := other\<rparr>) (unpatchXcodeBuildScripts proj)"
  by (auto simp: unpatchXcodeBuildScripts_def split: option.splits sum.splits)

lemma apply_ignores_other_objects:
  "addNewXcodeBuildPhaseForSymbols uuid (buildScripts (proj\<lparr>otherObjects := other\<rparr>))
       (proj\<lparr>otherObjects := other\<rparr>) =
     map_sum id (\<lambda>p. p\<lparr>otherObjects := other\<rparr>)
       (addNewXcodeBuildPhaseForSymbols uuid (buildScripts proj) proj)"
  by (auto simp: addNew_cases buildScripts_def addBuildPhase_def Let_def split: option.splits sum.splits)

lemma apply_frame:
  assumes "addNewXcodeBuildPhaseForSymbols uuid (buildScripts proj) proj = Inr proj'"
  shows "otherObjects proj' = otherObjects proj \<and> firstTarget proj' = firstTarget proj"
  using assms
  by (auto simp: addNew_cases addBuildPhase_def Let_def split: sum.splits if_splits)

lemma apply_keeps_entry:
  assumes "addNewXcodeBuildPhaseForSymbols uuid (buildScripts proj) proj = Inr proj'"
    and "k \<noteq> uuid" and "k \<noteq> uuid @ js ''_comment''"
  shows "map_of (scripts_of proj') k = map_of (scripts_of proj) k"
  using assms
  by (auto simp: addNew_cases scripts_of_def addBuildPhase_scripts update_conv'
      split: sum.splits if_splits option.splits)

section \<open>The example descriptors evaluated\<close>

lemma buildScripts_example: "buildScripts example_project = [run_phase]"
  by (simp add: buildScripts_def example_project_def map_filter_simps truthy_def run_phase_def js_def)


lemma run_phase_plain:
  "has_body run_phase \<and> \<not> script_matches apply_pattern run_phase \<and>
   \<not> script_matches revert_pattern run_phase"
  by (simp add: has_body_def script_matches_def run_phase_def regex_test_def apply_pattern_def
      revert_pattern_def js_def)

lemma upload_phase_matches:
  "has_body upload_phase \<and> script_matches apply_pattern upload_phase \<and>
   script_matches revert_pattern upload_phase"
  by (simp add: has_body_def script_matches_def upload_phase_def upload_script_matches_apply
      upload_script_matches_revert)

lemma apply_example:
  "addNewXcodeBuildPhaseForSymbols (js ''B2'') (buildScripts example_project) example_project =
     Inr patched_project"
proof -
  have "addNewXcodeBuildPhaseForSymbols_loop (buildScripts example_project) = Inr False"
    unfolding loop_False_iff2 using run_phase_plain by (simp add: buildScripts_example)
  moreover have "addBuildPhase (js ''B2'') (js ''PBXShellScriptBuildPhase'') upload_label
      (js ''/bin/sh'') upload_script example_project = patched_project"
    by (simp add: addBuildPhase_def example_project_def patched_project_def upload_phase_def
        Let_def js_def)
  ultimately show ?thesis
    by (simp add: addNew_cases)
qed

lemma projects_differ: "patched_project \<noteq> example_project"
  by (simp add: patched_project_def example_project_def)

lemma unpatch_example: "unpatchXcodeBuildScripts example_project = Inr example_project"
  using run_phase_plain
  by (simp add: unpatchXcodeBuildScripts_def example_project_def script_matches_def run_phase_def js_def)

lemma unpatch_two_targets:
  "unpatchXcodeBuildScripts two_target_project =
     Inr (two_target_project\<lparr>PBXShellScriptBuildPhase := Some []\<rparr>)"
  by (simp add: unpatchXcodeBuildScripts_def two_target_project_def upload_phase_def
      upload_script_matches_revert Let_def js_def)

lemma selected_patched:
  "selected [(js ''A1'', Phase run_phase), (js ''A1_comment'', Comment (js ''Run'')),
             (js ''B2'', Phase upload_phase), (js ''B2_comment'', Comment upload_label)] k
     \<longleftrightarrow> k = js ''B2''"
  using run_phase_plain upload_phase_matches by (simp add: selected_def js_def)

lemma patched_well_formed:
  "comment_keys_hold_strings
     [(js ''A1'', Phase run_phase), (js ''A1_comment'', Comment (js ''Run'')),
      (js ''B2'', Phase upload_phase), (js ''B2_comment'', Comment upload_label)] \<and>
   scripts_have_bodies
     [(js ''A1'', Phase run_phase), (js ''A1_comment'', Comment (js ''Run'')),
      (js ''B2'', Phase upload_phase), (js ''B2_comment'', Comment upload_label)]"
  using run_phase_plain upload_phase_matches
  by (simp add: comment_keys_hold_strings_def scripts_have_bodies_def is_comment_key_def
      suffix_to_prefix js_def)

lemma unpatch_patched: "unpatchXcodeBuildScripts patched_project = Inr example_project"
proof -
  let ?S = "[(js ''A1'', Phase run_phase), (js ''A1_comment'', Comment (js ''Run'')),
             (js ''B2'', Phase upload_phase), (js ''B2_comment'', Comment upload_label)]"
  let ?ps = "[\<lparr>ref_value = js ''A1'', ref_comment = js ''Run''\<rparr>,
              \<lparr>ref_value = js ''B2'', ref_comment = upload_label\<rparr>]"
  let ?t = "\<lparr>target_name = js ''App'', buildPhases = Some ?ps\<rparr>"
  let ?T = "[(js ''T1'', ?t)]"
  let ?ks = "[js ''A1'', js ''A1_comment'', js ''B2'', js ''B2_comment'']"
  have "unpatchXcodeBuildScripts_loop (js ''T1'') ?ks ?S ?T =
     Inr (filter (\<lambda>kv. \<not> (\<exists>k\<in>set ?ks. selected ?S k \<and>
                              (fst kv = k \<or> fst kv = k @ js ''_comment''))) ?S,
          AList.update (js ''T1'')
            (?t\<lparr>buildPhases :=
                 map_option (filter (\<lambda>r. \<not> (ref_value r \<in> set ?ks \<and> selected ?S (ref_value r))))
                   (buildPhases ?t)\<rparr>) ?T)"
    using patched_well_formed by (intro unpatch_loop_result) (simp_all add: js_def)
  also have "\<dots> = Inr ([(js ''A1'', Phase run_phase), (js ''A1_comment'', Comment (js ''Run''))],
      [(js ''T1'', \<lparr>target_name = js ''App'',
                    buildPhases = Some [\<lparr>ref_value = js ''A1'', ref_comment = js ''Run''\<rparr>]\<rparr>)])"
    unfolding selected_patched by (simp add: js_def)
  finally show ?thesis
    by (simp add: unpatchXcodeBuildScripts_def patched_project_def example_project_def)
qed

section \<open>The unit of work of a platform\<close>

lemma platform_unit_ios:
  "platform_unit io props (js ''ios'') =
     (let P = PatchMatchingFile (folderPrefix @ js ''/ios/*.xcodeproj/project.pbxproj'');
          A = AddSentryProperties (js ''ios'') props
      in case io P of
           Rejected e \<Rightarrow> ([Called P, Settled P (Some e), Red e], Fulfilled ())
         | Pending \<Rightarrow> ([Called P], Pending)
         | Fulfilled u \<Rightarrow>
             (case io A of
                Rejected e \<Rightarrow>
                  ([Called P, Settled P None, Called A, Settled A (Some e), Red e], Fulfilled ())
              | Pending \<Rightarrow> ([Called P, Settled P None, Called A], Pending)
              | Fulfilled u \<Rightarrow> ([Called P, Settled P None, Called A, Settled A None,
                                  Green (success_message (js ''ios''))], Fulfilled ())))"
  by (simp add: platform_unit_def try_catch_def bind_async_def await_call_def green_def red_def
      success_message_def Let_def split: promise.splits)

lemma platform_unit_other:
  "platform \<noteq> js ''ios'' \<Longrightarrow>
   platform_unit io props platform =
     (let A = AddSentryProperties platform props
      in case io A of
           Rejected e \<Rightarrow> ([Called A, Settled A (Some e), Red e], Fulfilled ())
         | Pending \<Rightarrow> ([Called A], Pending)
         | Fulfilled u \<Rightarrow>
             ([Called A, Settled A None, Green (success_message platform)], Fulfilled ()))"
  by (simp add: platform_unit_def try_catch_def bind_async_def await_call_def green_def red_def
      return_async_def success_message_def Let_def split: promise.splits)

text \<open>
  The promise of a unit is never rejected: it is fulfilled, or it never settles.
\<close>

lemma platform_unit_not_rejected: "snd (platform_unit io props platform) \<noteq> Rejected e"
  by (cases "platform = js ''ios''")
    (simp_all add: platform_unit_ios platform_unit_other Let_def split: promise.splits)

lemma all_fulfilled_not_rejected:
  "\<forall>r\<in>set rs. \<forall>e. r \<noteq> Rejected e \<Longrightarrow> \<forall>e. all_fulfilled rs \<noteq> Rejected e"
proof (induction rs)
  case Nil
  show ?case by simp
next
  case (Cons r rs)
  then have "\<forall>e. all_fulfilled rs \<noteq> Rejected e"
    by simp
  with Cons.prems show ?case
    by (cases r; cases "all_fulfilled rs") simp_all
qed

lemma all_fulfilled_Fulfilled:
  "\<forall>r\<in>set rs. r = Fulfilled () \<Longrightarrow> all_fulfilled rs = Fulfilled (replicate (length rs) ())"
  by (induction rs) simp_all

lemma all_fulfilled_Pending:
  "\<forall>r\<in>set rs. \<forall>e. r \<noteq> Rejected e \<Longrightarrow> Pending \<in> set rs \<Longrightarrow> all_fulfilled rs = Pending"
proof (induction rs)
  case Nil
  then show ?case by simp
next
  case (Cons r rs)
  have nr: "\<forall>e. all_fulfilled rs \<noteq> Rejected e"
    using Cons.prems(1) by (intro all_fulfilled_not_rejected) simp
  show ?case
  proof (cases r)
    case (Fulfilled x)
    with Cons have "all_fulfilled rs = Pending"
      by simp
    with Fulfilled show ?thesis
      by simp
  next
    case (Rejected e)
    with Cons.prems(1) show ?thesis
      by simp
  next
    case Pending
    with nr show ?thesis
      by (cases "all_fulfilled rs") simp_all
  qed
qed

lemma emit_traces:
  "fst (emit io False props platforms) = map (\<lambda>p. fst (platform_unit io props p)) platforms"
  by (simp add: emit_def promise_all_def split: promise.splits)

lemma emit_promise:
  "snd (emit io False props platforms) =
     (case all_fulfilled (map (\<lambda>p. snd (platform_unit io props p)) platforms) of
        Fulfilled us \<Rightarrow> Fulfilled (Units us)
      | Rejected e \<Rightarrow> Rejected e
      | Pending \<Rightarrow> Pending)"
  by (simp add: emit_def promise_all_def comp_def split: promise.splits)

text \<open>
  The promise of \<open>emit\<close> is never rejected. It is fulfilled when the promise of
  every unit is, and it never settles when that of one unit never does.
\<close>

lemma emit_not_rejected: "snd (emit io False props platforms) \<noteq> Rejected e"
proof -
  have "\<forall>e. all_fulfilled (map (\<lambda>p. snd (platform_unit io props p)) platforms) \<noteq> Rejected e"
    by (rule all_fulfilled_not_rejected) (simp add: platform_unit_not_rejected)
  then show ?thesis
    unfolding emit_promise by (simp split: promise.splits)
qed

lemma emit_fulfilled:
  assumes "\<forall>p\<in>set platforms. snd (platform_unit io props p) = Fulfilled ()"
  shows "snd (emit io False props platforms) = Fulfilled (Units (replicate (length platforms) ()))"
proof -
  have "all_fulfilled (map (\<lambda>p. snd (platform_unit io props p)) platforms) =
      Fulfilled (replicate (length (map (\<lambda>p. snd (platform_unit io props p)) platforms)) ())"
    by (rule all_fulfilled_Fulfilled) (simp add: assms)
  then show ?thesis
    unfolding emit_promise by simp
qed

lemma emit_pending:
  assumes "p \<in> set platforms" and "snd (platform_unit io props p) = Pending"
  shows "snd (emit io False props platforms) = Pending"
proof -
  have "Pending \<in> set (map (\<lambda>p. snd (platform_unit io props p)) platforms)"
    using assms by force
  then have "all_fulfilled (map (\<lambda>p. snd (platform_unit io props p)) platforms) = Pending"
    by (intro all_fulfilled_Pending) (simp_all add: platform_unit_not_rejected)
  then show ?thesis
    unfolding emit_promise by simp
qed

text \<open>
  What a unit does, by the first of its calls whose promise is not fulfilled: a
  rejection is caught and printed in red, and the unit is fulfilled; with no such call
  the unit prints its success message; at a promise that never settles the unit stops
  after the call, prints nothing more and never settles.
\<close>

lemma unit_failure:
  assumes "find (\<lambda>c. io c \<noteq> Fulfilled ()) (unit_calls props p) = Some c" and "io c = Rejected e"
  shows "last (fst (platform_unit io props p)) = Red e \<and>
         snd (platform_unit io props p) = Fulfilled ()"
proof (cases "p = js ''ios''")
  case True
  with assms show ?thesis
    by (auto simp: platform_unit_ios unit_calls_def Let_def split: promise.splits if_splits)
next
  case False
  with assms show ?thesis
    by (auto simp: platform_unit_other unit_calls_def Let_def split: promise.splits if_splits)
qed

lemma unit_success:
  assumes "\<forall>c\<in>set (unit_calls props p). io c = Fulfilled ()"
  shows "last (fst (platform_unit io props p)) = Green (success_message p) \<and>
         snd (platform_unit io props p) = Fulfilled ()"
proof (cases "p = js ''ios''")
  case True
  with assms show ?thesis
    by (auto simp: platform_unit_ios unit_calls_def Let_def split: promise.splits if_splits)
next
  case False
  with assms show ?thesis
    by (auto simp: platform_unit_other unit_calls_def Let_def split: promise.splits if_splits)
qed

lemma unit_pending:
  assumes "find (\<lambda>c. io c \<noteq> Fulfilled ()) (unit_calls props p) = Some c" and "io c = Pending"
  shows "last (fst (platform_unit io props p)) = Called c \<and>
         snd (platform_unit io props p) = Pending \<and>
         (\<forall>e. Red e \<notin> set (fst (platform_unit io props p))) \<and>
         (\<forall>m. Green m \<notin> set (fst (platform_unit io props p)))"
proof (cases "p = js ''ios''")
  case True
  with assms show ?thesis
    by (auto simp: platform_unit_ios unit_calls_def Let_def split: promise.splits if_splits)
next
  case False
  with assms show ?thesis
    by (auto simp: platform_unit_other unit_calls_def Let_def split: promise.splits if_splits)
qed

lemma unit_independent:
  assumes "\<forall>c\<in>set (unit_calls props p). io' c = io c"
  shows "platform_unit io' props p = platform_unit io props p"
proof (cases "p = js ''ios''")
  case True
  with assms have "io' (PatchMatchingFile (folderPrefix @ js ''/ios/*.xcodeproj/project.pbxproj''))
      = io (PatchMatchingFile (folderPrefix @ js ''/ios/*.xcodeproj/project.pbxproj''))"
    and "io' (AddSentryProperties (js ''ios'') props) = io (AddSentryProperties (js ''ios'') props)"
    by (simp_all add: unit_calls_def)
  then show ?thesis
    unfolding True platform_unit_ios by (simp add: Let_def split: promise.splits)
next
  case False
  with assms have "io' (AddSentryProperties p props) = io (AddSentryProperties p props)"
    by (simp add: unit_calls_def)
  then show ?thesis
    unfolding platform_unit_other [OF False] by (simp add: Let_def split: promise.splits)
qed

text \<open>
  A descriptor file that does not parse: the rejection is caught in the unit of
  \<open>ios\<close> and printed in red, the unit of \<open>android\<close> prints its success message,
  and the promise of \<open>emit\<close> is fulfilled.
\<close>

lemma emit_parse_fails:
  "emit parse_fails False () [js ''ios'', js ''android''] =
     ([[Called (PatchMatchingFile (folderPrefix @ js ''/ios/*.xcodeproj/project.pbxproj'')),
        Settled (PatchMatchingFile (folderPrefix @ js ''/ios/*.xcodeproj/project.pbxproj''))
          (Some ParseError),
        Red ParseError],
       [Called (AddSentryProperties (js ''android'') ()),
        Settled (AddSentryProperties (js ''android'') ()) None,
        Green (success_message (js ''android''))]], Fulfilled (Units [(), ()]))"
proof -
  have ne: "js ''android'' \<noteq> js ''ios''"
    by (simp add: js_def)
  show ?thesis
    by (simp add: emit_def promise_all_def platform_unit_ios platform_unit_other [OF ne]
        parse_fails_def Let_def)
qed

text \<open>
  The descriptor with a shell-script phase that has no script: the exception of line
  163 escapes the callback of \<open>proj.parse\<close>, and the promise of the patch never
  settles.
\<close>

lemma buildScripts_bodyless: "buildScripts bodyless_project = [bodyless_phase]"
  by (simp add: buildScripts_def bodyless_project_def map_filter_simps truthy_def
      bodyless_phase_def run_phase_def js_def)

lemma patchXcodeProj_bodyless:
  "patchXcodeProj (\<lambda>f. Inr bodyless_project) example_writeSync (js ''B2'') (js ''bodyless'') f =
     Throw TypeError"
  by (simp add: patchXcodeProj_def addNewXcodeBuildPhaseForSymbols_def buildScripts_bodyless
      bodyless_phase_def)

lemma callback_throws_calls:
  "callback_throws (PatchMatchingFile g) = Pending"
  "callback_throws (AddSentryProperties p q) = Fulfilled ()"
  by (simp_all add: callback_throws_def patchMatchingFile_promise_def patchXcodeProj_bodyless)

section \<open>Package.ts unfolded\<close>

lemma listed_version_empty:
  "listed_version deps packageName = [] \<longleftrightarrow>
     (deps = None \<or> (\<exists>d. deps = Some d \<and> (d packageName = None \<or> d packageName = Some [])))"
  by (auto simp: listed_version_def split: option.splits)

lemma fulfills_unfold:
  "fulfillsVersionRange sv version acceptableVersions canBeLatest =
     (if version = js ''latest'' then canBeLatest
      else if truthy (sv_valid sv version)
      then (case sv_valid sv version of
              None \<Rightarrow> False
            | Some c \<Rightarrow> c \<noteq> [] \<and> sv_satisfies sv c acceptableVersions)
      else if truthy (sv_validRange sv version)
      then (case sv_validRange sv version of
              None \<Rightarrow> False
            | Some c \<Rightarrow> c \<noteq> [] \<and> sv_subset sv c acceptableVersions)
      else False)"
  by (simp add: fulfillsVersionRange_def split: option.splits)

lemma example_listed:
  "listed_version (dependencies example_package) (js ''cordova'') = js ''bogus''"
  "listed_version (devDependencies example_package) (js ''cordova'') = js ''^1.0.0''"
  "listed_version (dependencies example_package) (js ''left-pad'') = js ''latest''"
  "listed_version (devDependencies example_package) (js ''left-pad'') = []"
  "listed_version (dependencies example_package) (js ''lodash'') = []"
  "listed_version (devDependencies example_package) (js ''lodash'') = []"
  by (simp_all add: listed_version_def example_package_def js_def)

lemma example_fulfils:
  "\<not> fulfillsVersionRange example_semver (js ''bogus'') (js ''>=1.0.0'') False"
  "fulfillsVersionRange example_semver (js ''^1.0.0'') (js ''>=1.0.0'') False"
  "\<not> fulfillsVersionRange example_semver (js ''latest'') (js ''>=1.0.0'') False"
  "\<not> fulfillsVersionRange example_semver [] (js ''>=1.0.0'') False"
  by (simp_all add: fulfillsVersionRange_def example_semver_def truthy_def js_def)

section \<open>The properties of the specification\<close>

subsection \<open>C1: Apply twice is Apply once\<close>

text \<open>
  C1: applying Apply to a file that Apply has already been applied to leaves the bytes
  of the file as they are. Whenever the first invocation resolves, the second one
  resolves with no content: the descriptor read back holds the phase added by the
  first invocation, whose script matches the pattern of line 163, so the loop of
  \<open>addNewXcodeBuildPhaseForSymbols\<close> returns early, nothing is added and the serialised
  text equals the contents. The hypothesis is the round trip of the library at the
  descriptor that Apply serialises: parsing its text gives it back.
\<close>

theorem apply_twice_is_apply_once:
  assumes roundtrip:
    "\<And>contents proj proj'. fs filename = Some contents \<Longrightarrow> parse_text contents = Inr proj \<Longrightarrow>
       addNewXcodeBuildPhaseForSymbols uuid (buildScripts proj) proj = Inr proj' \<Longrightarrow>
       parse_text (writeSync proj') = Inr proj'"
  shows "apply_to_file parse_text writeSync uuid' filename
           (apply_to_file parse_text writeSync uuid filename fs) =
         apply_to_file parse_text writeSync uuid filename fs \<and>
         (\<forall>c. apply_outcome parse_text writeSync uuid filename fs = Some (Resolve c) \<longrightarrow>
              apply_outcome parse_text writeSync uuid' filename
                (apply_to_file parse_text writeSync uuid filename fs) = Some (Resolve None)) \<and>
         (\<forall>contents proj proj'.
              parse_text contents = Inr proj \<and>
              addNewXcodeBuildPhaseForSymbols uuid (buildScripts proj) proj = Inr proj' \<longrightarrow>
              addNewXcodeBuildPhaseForSymbols_loop (buildScripts proj') = Inr True \<and>
              addNewXcodeBuildPhaseForSymbols uuid' (buildScripts proj') proj' = Inr proj')"
proof -
  have again: "\<forall>contents proj proj'.
      parse_text contents = Inr proj \<and>
      addNewXcodeBuildPhaseForSymbols uuid (buildScripts proj) proj = Inr proj' \<longrightarrow>
      addNewXcodeBuildPhaseForSymbols_loop (buildScripts proj') = Inr True \<and>
      addNewXcodeBuildPhaseForSymbols uuid' (buildScripts proj') proj' = Inr proj'"
    using apply_stable apply_stable2 by blast
  have "apply_to_file parse_text writeSync uuid' filename
           (apply_to_file parse_text writeSync uuid filename fs) =
         apply_to_file parse_text writeSync uuid filename fs \<and>
         (\<forall>c. apply_outcome parse_text writeSync uuid filename fs = Some (Resolve c) \<longrightarrow>
              apply_outcome parse_text writeSync uuid' filename
                (apply_to_file parse_text writeSync uuid filename fs) = Some (Resolve None))"
  proof (cases "fs filename")
  case None
  then show ?thesis
    by (simp add: apply_to_file_def apply_outcome_def)
next
  case (Some contents)
  note fl = Some
  show ?thesis
  proof (cases "parse_text contents")
    case (Inl e)
    with fl show ?thesis
      by (simp add: apply_to_file_def apply_outcome_def patchXcodeProj_def parse_file_def)
  next
    case (Inr proj)
    note parsed = Inr
    show ?thesis
    proof (cases "addNewXcodeBuildPhaseForSymbols uuid (buildScripts proj) proj")
      case (Inl e)
      then have "addNewXcodeBuildPhaseForSymbols uuid' (buildScripts proj) proj = Inl e"
        by (simp add: addNew_Inl)
      with Inl fl parsed show ?thesis
        by (simp add: apply_to_file_def apply_outcome_def patchXcodeProj_def parse_file_def)
    next
      case (Inr proj')
      let ?fs1 = "apply_to_file parse_text writeSync uuid filename fs"
      have rt: "parse_text (writeSync proj') = Inr proj'"
        using roundtrip [OF fl parsed Inr] .
      have fs1: "?fs1 = fs(filename \<mapsto> writeSync proj')"
        using fl parsed Inr
        by (auto simp: apply_to_file_def apply_outcome_def patchXcodeProj_def parse_file_def Let_def)
      have p1: "parse_file parse_text ?fs1 filename = Inr proj'"
        by (simp add: fs1 parse_file_def rt)
      have p0: "parse_file parse_text fs filename = Inr proj"
        by (simp add: parse_file_def fl parsed)
      have second: "patchXcodeProj (parse_file parse_text ?fs1) writeSync uuid' (writeSync proj') filename
          = Resolve None"
        using p0 Inr p1 by (rule patchXcodeProj_rerun)
      then have out: "apply_outcome parse_text writeSync uuid' filename ?fs1 = Some (Resolve None)"
        by (simp add: apply_outcome_def fs1)
      then have "apply_to_file parse_text writeSync uuid' filename ?fs1 = ?fs1"
        by (simp add: apply_to_file_def)
      with out show ?thesis by simp
    qed
  qed
qed
  with again show ?thesis by blast
qed

theorem apply_twice_is_apply_once_witness:
  "apply_to_file example_parse_text example_writeSync (js ''C3'') (js ''project.pbxproj'')
     (apply_to_file example_parse_text example_writeSync (js ''B2'') (js ''project.pbxproj'') example_fs)
   = [js ''project.pbxproj'' \<mapsto> js ''patched''] \<and>
   apply_outcome example_parse_text example_writeSync (js ''B2'') (js ''project.pbxproj'') example_fs
   = Some (Resolve (Some (js ''patched''))) \<and>
   apply_outcome example_parse_text example_writeSync (js ''C3'') (js ''project.pbxproj'')
     (apply_to_file example_parse_text example_writeSync (js ''B2'') (js ''project.pbxproj'') example_fs)
   = Some (Resolve None)"
proof -
  have o1: "apply_outcome example_parse_text example_writeSync (js ''B2'') (js ''project.pbxproj'') example_fs
      = Some (Resolve (Some (js ''patched'')))"
    using projects_differ
    by (simp add: apply_outcome_def example_fs_def patchXcodeProj_def parse_file_def example_parse_text_def
        apply_example example_writeSync_def Let_def) (simp add: js_def)
  then have a1: "apply_to_file example_parse_text example_writeSync (js ''B2'') (js ''project.pbxproj'') example_fs
      = [js ''project.pbxproj'' \<mapsto> js ''patched'']"
    by (simp add: apply_to_file_def example_fs_def)
  have rt: "example_parse_text (example_writeSync proj') = Inr proj'"
    if "example_fs (js ''project.pbxproj'') = Some contents"
      and "example_parse_text contents = Inr proj"
      and "addNewXcodeBuildPhaseForSymbols (js ''B2'') (buildScripts proj) proj = Inr proj'"
    for contents proj proj'
  proof -
    from that(1) have "contents = js ''original''"
      by (simp add: example_fs_def)
    with that(2) have "proj = example_project"
      by (simp add: example_parse_text_def)
    with that(3) have "proj' = patched_project"
      by (simp add: apply_example)
    then show ?thesis
      using projects_differ by (simp add: example_parse_text_def example_writeSync_def js_def)
  qed
  from apply_twice_is_apply_once [of example_fs "js ''project.pbxproj''" example_parse_text "js ''B2''"
      example_writeSync "js ''C3''", OF rt] o1 a1
  show ?thesis by simp
qed

subsection \<open>C2: what Revert removes\<close>

text \<open>
  C2 as the specification states it does not hold: the reference is looked for in the
  first target only (lines 97 and 112). In \<open>two_target_project\<close> the upload phase is
  a build phase of the second target: Revert deletes the phase record and its comment
  record, and the second target still lists the phase.
\<close>

theorem revert_leaves_reference_counterexample:
  "unpatchXcodeBuildScripts two_target_project =
     Inr (two_target_project\<lparr>PBXShellScriptBuildPhase := Some []\<rparr>) \<and>
   map_of (PBXNativeTarget (two_target_project\<lparr>PBXShellScriptBuildPhase := Some []\<rparr>)) (js ''T2'') =
     Some \<lparr>target_name = js ''Extension'',
           buildPhases = Some [\<lparr>ref_value = js ''B2'', ref_comment = upload_label\<rparr>]\<rparr>"
  using unpatch_two_targets by (simp add: two_target_project_def js_def)

text \<open>
  C2, as amended: in a descriptor whose comment keys hold comment strings, whose
  shell-script phases all have a script and whose first target has a sequence of
  distinct references, Revert deletes the record of every phase whose script matches
  the pattern of line 109 together with its \<open>id_comment\<close> record, and keeps every other
  id with its comment record, in their order. From the first target's \<open>buildPhases\<close>
  it removes the references to the deleted phases and keeps the others in their order;
  the sequences of the other targets are as before. When no phase matches, the
  descriptor is returned as it is, without an error.
\<close>

theorem revert_removes_selected:
  "(PBXShellScriptBuildPhase proj = Some scripts \<and>
    comment_keys_hold_strings scripts \<and> scripts_have_bodies scripts \<and>
    map_of (PBXNativeTarget proj) (firstTarget proj) = Some t \<and>
    buildPhases t = Some phases \<and> distinct (map ref_value phases) \<longrightarrow>
    (\<exists>proj'. unpatchXcodeBuildScripts proj = Inr proj' \<and>
       PBXShellScriptBuildPhase proj' =
         Some (filter (\<lambda>kv. \<not> (\<exists>k\<in>fst ` set scripts. selected scripts k \<and>
                                  (fst kv = k \<or> fst kv = k @ js ''_comment''))) scripts) \<and>
       (\<forall>k. selected scripts k \<longrightarrow>
            map_of (scripts_of proj') k = None \<and>
            map_of (scripts_of proj') (k @ js ''_comment'') = None) \<and>
       (\<forall>k. \<not> selected scripts k \<and> \<not> is_comment_key k \<longrightarrow>
            map_of (scripts_of proj') k = map_of scripts k \<and>
            map_of (scripts_of proj') (k @ js ''_comment'') = map_of scripts (k @ js ''_comment'')) \<and>
       map_of (PBXNativeTarget proj') (firstTarget proj) =
         Some (t\<lparr>buildPhases := Some (filter (\<lambda>r. \<not> selected scripts (ref_value r)) phases)\<rparr>) \<and>
       (\<forall>k. k \<noteq> firstTarget proj \<longrightarrow>
            map_of (PBXNativeTarget proj') k = map_of (PBXNativeTarget proj) k))) \<and>
   (scripts_have_bodies (scripts_of proj) \<and> (\<forall>k. \<not> selected (scripts_of proj) k) \<longrightarrow>
    unpatchXcodeBuildScripts proj = Inr proj)"
proof (intro conjI impI)
  assume a: "PBXShellScriptBuildPhase proj = Some scripts \<and>
    comment_keys_hold_strings scripts \<and> scripts_have_bodies scripts \<and>
    map_of (PBXNativeTarget proj) (firstTarget proj) = Some t \<and>
    buildPhases t = Some phases \<and> distinct (map ref_value phases)"
  let ?gone = "\<lambda>k'. \<exists>k\<in>fst ` set scripts. selected scripts k \<and> (k' = k \<or> k' = k @ js ''_comment'')"
  let ?S' = "filter (\<lambda>kv. \<not> ?gone (fst kv)) scripts"
  let ?t' = "t\<lparr>buildPhases := Some (filter (\<lambda>r. \<not> selected scripts (ref_value r)) phases)\<rparr>"
  let ?T' = "AList.update (firstTarget proj) ?t' (PBXNativeTarget proj)"
  let ?proj' = "proj\<lparr>PBXShellScriptBuildPhase := Some ?S', PBXNativeTarget := ?T'\<rparr>"
  have d: "\<forall>ps. buildPhases t = Some ps \<longrightarrow> distinct (map ref_value ps)"
    using a by simp
  have e1: "(\<lambda>r. \<not> (ref_value r \<in> set (map fst scripts) \<and> selected scripts (ref_value r)))
      = (\<lambda>r. \<not> selected scripts (ref_value r))"
    using selected_in_keys [of scripts] by auto
  have e2: "(\<lambda>kv. \<not> (\<exists>k\<in>set (map fst scripts). selected scripts k \<and>
                              (fst kv = k \<or> fst kv = k @ js ''_comment'')))
      = (\<lambda>kv. \<not> ?gone (fst kv))"
    by (simp only: set_map)
  have bp: "map_option (filter (\<lambda>r. \<not> selected scripts (ref_value r))) (buildPhases t)
      = Some (filter (\<lambda>r. \<not> selected scripts (ref_value r)) phases)"
    using a by simp
  have "unpatchXcodeBuildScripts_loop (firstTarget proj) (map fst scripts) scripts
      (PBXNativeTarget proj) =
     Inr (filter (\<lambda>kv. \<not> (\<exists>k\<in>set (map fst scripts). selected scripts k \<and>
                              (fst kv = k \<or> fst kv = k @ js ''_comment''))) scripts,
          AList.update (firstTarget proj)
            (t\<lparr>buildPhases :=
                 map_option (filter (\<lambda>r. \<not> (ref_value r \<in> set (map fst scripts) \<and>
                    selected scripts (ref_value r))))
                   (buildPhases t)\<rparr>) (PBXNativeTarget proj))"
    using a d by (intro unpatch_loop_result) simp_all
  then have loop: "unpatchXcodeBuildScripts_loop (firstTarget proj) (map fst scripts) scripts
      (PBXNativeTarget proj) = Inr (?S', ?T')"
    unfolding e1 e2 bp .
  have r: "unpatchXcodeBuildScripts proj = Inr ?proj'"
    using a loop by (simp add: unpatchXcodeBuildScripts_def)
  have so: "scripts_of ?proj' = ?S'"
    by (simp add: scripts_of_def)
  have lookup: "map_of (scripts_of ?proj') k = (if \<not> ?gone k then map_of scripts k else None)" for k
    unfolding so by (rule map_of_filter_key [of "\<lambda>k'. \<not> ?gone k'"])
  have gone1: "\<And>k. selected scripts k \<Longrightarrow> ?gone k \<and> ?gone (k @ js ''_comment'')"
    using selected_in_keys by blast
  have nsc: "\<And>k. \<not> selected scripts (k @ js ''_comment'')"
    using a not_selected_comment_key by blast
  have keep: "\<not> ?gone k \<and> \<not> ?gone (k @ js ''_comment'')"
    if "\<not> selected scripts k" "\<not> is_comment_key k" for k
    using that nsc by (auto simp: is_comment_key_def suffix_def)
  have "\<forall>k. selected scripts k \<longrightarrow>
            map_of (scripts_of ?proj') k = None \<and>
            map_of (scripts_of ?proj') (k @ js ''_comment'') = None"
    using gone1 by (simp only: lookup) simp
  moreover have "\<forall>k. \<not> selected scripts k \<and> \<not> is_comment_key k \<longrightarrow>
            map_of (scripts_of ?proj') k = map_of scripts k \<and>
            map_of (scripts_of ?proj') (k @ js ''_comment'') = map_of scripts (k @ js ''_comment'')"
    using keep by (simp only: lookup) simp
  moreover have "map_of (PBXNativeTarget ?proj') (firstTarget proj) = Some ?t'"
    by (simp add: update_conv')
  moreover have "\<forall>k. k \<noteq> firstTarget proj \<longrightarrow>
            map_of (PBXNativeTarget ?proj') k = map_of (PBXNativeTarget proj) k"
    by (simp add: update_conv')
  moreover have "PBXShellScriptBuildPhase ?proj' = Some ?S'"
    by simp
  ultimately show "\<exists>proj'. unpatchXcodeBuildScripts proj = Inr proj' \<and>
       PBXShellScriptBuildPhase proj' =
         Some (filter (\<lambda>kv. \<not> (\<exists>k\<in>fst ` set scripts. selected scripts k \<and>
                                  (fst kv = k \<or> fst kv = k @ js ''_comment''))) scripts) \<and>
       (\<forall>k. selected scripts k \<longrightarrow>
            map_of (scripts_of proj') k = None \<and>
            map_of (scripts_of proj') (k @ js ''_comment'') = None) \<and>
       (\<forall>k. \<not> selected scripts k \<and> \<not> is_comment_key k \<longrightarrow>
            map_of (scripts_of proj') k = map_of scripts k \<and>
            map_of (scripts_of proj') (k @ js ''_comment'') = map_of scripts (k @ js ''_comment'')) \<and>
       map_of (PBXNativeTarget proj') (firstTarget proj) =
         Some (t\<lparr>buildPhases := Some (filter (\<lambda>r. \<not> selected scripts (ref_value r)) phases)\<rparr>) \<and>
       (\<forall>k. k \<noteq> firstTarget proj \<longrightarrow>
            map_of (PBXNativeTarget proj') k = map_of (PBXNativeTarget proj) k)"
    using r by blast
next
  assume z: "scripts_have_bodies (scripts_of proj) \<and> (\<forall>k. \<not> selected (scripts_of proj) k)"
  show "unpatchXcodeBuildScripts proj = Inr proj"
  proof (cases "PBXShellScriptBuildPhase proj")
    case None
    then show ?thesis by (simp add: unpatchXcodeBuildScripts_def)
  next
    case (Some scripts)
    with z have "unpatchXcodeBuildScripts_loop (firstTarget proj) (map fst scripts) scripts
        (PBXNativeTarget proj) = Inr (scripts, PBXNativeTarget proj)"
      by (intro loop_nothing_selected) (simp_all add: scripts_of_def)
    with Some show ?thesis
      by (simp add: unpatchXcodeBuildScripts_def)
  qed
qed

theorem revert_removes_selected_witness:
  "(\<exists>proj'. unpatchXcodeBuildScripts patched_project = Inr proj' \<and>
      PBXShellScriptBuildPhase proj' = PBXShellScriptBuildPhase example_project \<and>
      map_of (PBXNativeTarget proj') (js ''T1'') = map_of (PBXNativeTarget example_project) (js ''T1'')) \<and>
   unpatchXcodeBuildScripts example_project = Inr example_project"
proof -
  let ?S = "[(js ''A1'', Phase run_phase), (js ''A1_comment'', Comment (js ''Run'')),
             (js ''B2'', Phase upload_phase), (js ''B2_comment'', Comment upload_label)]"
  let ?t = "\<lparr>target_name = js ''App'',
             buildPhases = Some [\<lparr>ref_value = js ''A1'', ref_comment = js ''Run''\<rparr>,
                                 \<lparr>ref_value = js ''B2'', ref_comment = upload_label\<rparr>]\<rparr>"
  let ?ps = "[\<lparr>ref_value = js ''A1'', ref_comment = js ''Run''\<rparr>,
              \<lparr>ref_value = js ''B2'', ref_comment = upload_label\<rparr>]"
  have h1: "PBXShellScriptBuildPhase patched_project = Some ?S \<and>
    comment_keys_hold_strings ?S \<and> scripts_have_bodies ?S \<and>
    map_of (PBXNativeTarget patched_project) (firstTarget patched_project) = Some ?t \<and>
    buildPhases ?t = Some ?ps \<and> distinct (map ref_value ?ps)"
    using patched_well_formed by (simp add: patched_project_def js_def)
  have h2: "scripts_have_bodies (scripts_of example_project) \<and>
    (\<forall>k. \<not> selected (scripts_of example_project) k)"
    using run_phase_plain
    by (simp add: scripts_of_def example_project_def scripts_have_bodies_def selected_def)
  have ft: "firstTarget patched_project = js ''T1''"
    by (simp add: patched_project_def)
  have f1: "filter (\<lambda>kv. \<not> (\<exists>k\<in>fst ` set ?S. selected ?S k \<and>
                                  (fst kv = k \<or> fst kv = k @ js ''_comment''))) ?S
      = [(js ''A1'', Phase run_phase), (js ''A1_comment'', Comment (js ''Run''))]"
    unfolding selected_patched by (simp add: js_def)
  have f2: "filter (\<lambda>r. \<not> selected ?S (ref_value r)) ?ps
      = [\<lparr>ref_value = js ''A1'', ref_comment = js ''Run''\<rparr>]"
    unfolding selected_patched by (simp add: js_def)
  from revert_removes_selected [of patched_project ?S ?t ?ps] h1
  obtain proj' where p: "unpatchXcodeBuildScripts patched_project = Inr proj'"
    "PBXShellScriptBuildPhase proj' =
         Some (filter (\<lambda>kv. \<not> (\<exists>k\<in>fst ` set ?S. selected ?S k \<and>
                                  (fst kv = k \<or> fst kv = k @ js ''_comment''))) ?S)"
    "map_of (PBXNativeTarget proj') (firstTarget patched_project) =
         Some (?t\<lparr>buildPhases := Some (filter (\<lambda>r. \<not> selected ?S (ref_value r)) ?ps)\<rparr>)"
    by blast
  have "PBXShellScriptBuildPhase proj' = PBXShellScriptBuildPhase example_project"
    unfolding p(2) f1 by (simp add: example_project_def)
  moreover have "map_of (PBXNativeTarget proj') (js ''T1'') =
      map_of (PBXNativeTarget example_project) (js ''T1'')"
    using p(3) unfolding f2 ft by (simp add: example_project_def)
  moreover from revert_removes_selected [of example_project] h2
  have "unpatchXcodeBuildScripts example_project = Inr example_project"
    by blast
  ultimately show ?thesis
    using p(1) by blast
qed

subsection \<open>C3: Apply adds one phase, or none\<close>



subsection \<open>C4: what the two operations resolve with\<close>

text \<open>
  C4 as the specification states it does not hold: Revert makes no comparison. On the
  file of \<open>example_project\<close>, which has no upload phase, \<open>unpatchXcodeProj\<close>
  resolves with the serialised text although it is equal to the contents it was given
  (line 90).
\<close>

theorem revert_hands_back_same_bytes_counterexample:
  "unpatchXcodeProj (parse_file example_parse_text example_fs) example_writeSync
     (js ''original'') (js ''project.pbxproj'') = Resolve (Some (js ''original''))"
  by (simp add: unpatchXcodeProj_def parse_file_def example_fs_def example_parse_text_def
      unpatch_example example_writeSync_def)

text \<open>
  C4, as amended: Apply (\<open>patchXcodeProj\<close>) serialises the descriptor after
  \<open>addNewXcodeBuildPhaseForSymbols\<close>, compares the text with the contents it was
  given and resolves with no content when they are equal, and with the new text when
  they differ. Revert (\<open>unpatchXcodeProj\<close>) serialises the descriptor after
  \<open>unpatchXcodeBuildScripts\<close> and always resolves with that text.
\<close>

theorem patch_engine_outcome:
  "(parse filename = Inr proj \<and>
    addNewXcodeBuildPhaseForSymbols uuid (buildScripts proj) proj = Inr proj' \<longrightarrow>
    patchXcodeProj parse writeSync uuid contents filename =
      (if writeSync proj' = contents then Resolve None else Resolve (Some (writeSync proj')))) \<and>
   (parse filename = Inr proj \<and> unpatchXcodeBuildScripts proj = Inr proj'' \<longrightarrow>
    unpatchXcodeProj parse writeSync contents filename = Resolve (Some (writeSync proj'')))"
  by (simp add: patchXcodeProj_def unpatchXcodeProj_def Let_def)

theorem patch_engine_outcome_witness:
  "patchXcodeProj (parse_file example_parse_text example_fs) example_writeSync (js ''B2'')
     (js ''original'') (js ''project.pbxproj'') = Resolve (Some (js ''patched'')) \<and>
   patchXcodeProj (parse_file example_parse_text [js ''project.pbxproj'' \<mapsto> js ''patched''])
     example_writeSync (js ''C3'') (js ''patched'') (js ''project.pbxproj'') = Resolve None \<and>
   unpatchXcodeProj (parse_file example_parse_text example_fs) example_writeSync
     (js ''original'') (js ''project.pbxproj'') = Resolve (Some (js ''original''))"
proof -
  have p: "parse_file example_parse_text example_fs (js ''project.pbxproj'') = Inr example_project"
    by (simp add: parse_file_def example_fs_def example_parse_text_def)
  have p2: "parse_file example_parse_text [js ''project.pbxproj'' \<mapsto> js ''patched'']
      (js ''project.pbxproj'') = Inr patched_project"
    by (simp add: parse_file_def example_parse_text_def js_def)
  have a2: "addNewXcodeBuildPhaseForSymbols (js ''C3'') (buildScripts patched_project) patched_project
      = Inr patched_project"
    using apply_example by (rule apply_stable2)
  have w: "example_writeSync patched_project = js ''patched''"
      "example_writeSync example_project = js ''original''"
    using projects_differ by (simp_all add: example_writeSync_def)
  have ne: "js ''patched'' \<noteq> js ''original''"
    by (simp add: js_def)
  from patch_engine_outcome [of "parse_file example_parse_text example_fs" "js ''project.pbxproj''"
      example_project "js ''B2''" patched_project example_writeSync "js ''original''" example_project]
    patch_engine_outcome [of "parse_file example_parse_text [js ''project.pbxproj'' \<mapsto> js ''patched'']"
      "js ''project.pbxproj''" patched_project "js ''C3''" patched_project example_writeSync
      "js ''patched''" patched_project]
    p p2 a2 apply_example unpatch_example w ne
  show ?thesis by simp
qed

subsection \<open>C5: the recognition patterns\<close>

text \<open>
  C5 as the specification states it does not hold: the body \<open>sentry-cli upload-dsym\<close>
  is already patched for Apply (line 163) and is not selected by Revert (line 109), so
  the two operations do not share one pattern.
\<close>

theorem patterns_differ_counterexample:
  "regex_test apply_pattern (js ''sentry-cli upload-dsym'') \<noteq>
   regex_test revert_pattern (js ''sentry-cli upload-dsym'')"
  by (simp add: regex_test_def apply_pattern_def revert_pattern_def js_def is_space_def)

text \<open>
  C5, as amended: the three patterns are nested. Every shell-script body that Revert
  would remove is one that Apply considers already patched, and every text that
  Apply's pattern matches is matched by the pattern of the content pre-check.
\<close>

theorem recognition_patterns_nested:
  "(regex_test revert_pattern s \<longrightarrow> regex_test apply_pattern s) \<and>
   (regex_test apply_pattern s \<longrightarrow> regex_test content_pattern s)"
  using revert_implies_apply apply_implies_content by blast

theorem recognition_patterns_nested_witness:
  "regex_test revert_pattern upload_script \<and> regex_test apply_pattern upload_script \<and>
   regex_test content_pattern upload_script"
  using recognition_patterns_nested [of upload_script] upload_script_matches_revert by blast

subsection \<open>C6: shouldConfigurePlatform\<close>

text \<open>
  C6: in Apply mode \<open>shouldConfigurePlatform\<close> is true exactly when the marker file
  \<open>platforms/<platform>/sentry.properties\<close> is absent or no file located by the
  pattern for project files has a content matching \<open>/sentry-cli/gi\<close>; in uninstall
  mode it returns the negation of that value.
\<close>

theorem shouldConfigurePlatform_rule:
  "shouldConfigurePlatform env False platform =
     (\<not> exists env (path_join env [folderPrefix, platform, js ''sentry.properties'']) \<or>
      \<not> (\<exists>f\<in>set (glob_sync env (js ''**/*.xcodeproj/project.pbxproj'')).
            \<exists>c. files env f = Some c \<and> regex_test content_pattern c)) \<and>
   shouldConfigurePlatform env True platform = (\<not> shouldConfigurePlatform env False platform)"
proof -
  have "matchesContent env (js ''**/*.xcodeproj/project.pbxproj'') content_pattern =
      (\<exists>f\<in>set (glob_sync env (js ''**/*.xcodeproj/project.pbxproj'')).
            \<exists>c. files env f = Some c \<and> regex_test content_pattern c)"
    by (auto simp: matchesContent_def list_ex_iff split: option.splits)
  then show ?thesis
    by (auto simp: shouldConfigurePlatform_def Let_def)
qed

theorem shouldConfigurePlatform_rule_witness:
  "\<not> shouldConfigurePlatform example_env False (js ''ios'') \<and>
   shouldConfigurePlatform example_env True (js ''ios'') \<and>
   shouldConfigurePlatform example_env False (js ''android'') \<and>
   \<not> shouldConfigurePlatform example_env True (js ''android'')"
proof -
  have m: "exists example_env (path_join example_env [folderPrefix, js ''ios'', js ''sentry.properties''])"
    by (simp add: exists_def example_env_def folderPrefix_def js_def)
  have n: "\<not> exists example_env (path_join example_env [folderPrefix, js ''android'', js ''sentry.properties''])"
    by (simp add: exists_def example_env_def folderPrefix_def js_def)
  have g: "glob_sync example_env (js ''**/*.xcodeproj/project.pbxproj'') =
      [js ''platforms/ios/App.xcodeproj/project.pbxproj'']"
    by (simp add: example_env_def)
  have f: "files example_env (js ''platforms/ios/App.xcodeproj/project.pbxproj'') = Some upload_script"
    by (simp add: example_env_def js_def)
  have c: "\<exists>f\<in>set (glob_sync example_env (js ''**/*.xcodeproj/project.pbxproj'')).
            \<exists>c. files example_env f = Some c \<and> regex_test content_pattern c"
    unfolding g using f upload_script_matches_content by simp
  from shouldConfigurePlatform_rule [of example_env "js ''ios''"]
    shouldConfigurePlatform_rule [of example_env "js ''android''"] m n c
  show ?thesis by blast
qed

subsection \<open>C7: an exception that escapes the patch is not caught by the unit\<close>

text \<open>
  C7: the descriptor file of iOS holds a shell-script phase without a script, and the
  platforms \<open>ios\<close> and \<open>android\<close> are requested. The TypeError of line 163 is raised
  inside the callback of \<open>proj.parse\<close>, so the promise of \<open>patchXcodeProj\<close> never
  settles. The unit of \<open>ios\<close> stops at its \<open>await\<close> of line 33: the error is not
  caught by the \<open>catch\<close> of line 40, nothing is printed in red, and the unit never
  settles. The unit of \<open>android\<close> runs to its success message all the same, but the
  promise of \<open>emit\<close> is never fulfilled: it stays pending.
\<close>

theorem emit_pending_when_parse_callback_throws:
  "patchXcodeProj (\<lambda>f. Inr bodyless_project) example_writeSync (js ''B2'') (js ''bodyless'')
     (js ''platforms/ios/App.xcodeproj/project.pbxproj'') = Throw TypeError \<and>
   platform_unit callback_throws () (js ''ios'') =
     ([Called (PatchMatchingFile (folderPrefix @ js ''/ios/*.xcodeproj/project.pbxproj''))],
      Pending) \<and>
   platform_unit callback_throws () (js ''android'') =
     ([Called (AddSentryProperties (js ''android'') ()),
       Settled (AddSentryProperties (js ''android'') ()) None,
       Green (success_message (js ''android''))], Fulfilled ()) \<and>
   emit callback_throws False () [js ''ios'', js ''android''] =
     ([[Called (PatchMatchingFile (folderPrefix @ js ''/ios/*.xcodeproj/project.pbxproj''))],
       [Called (AddSentryProperties (js ''android'') ()),
        Settled (AddSentryProperties (js ''android'') ()) None,
        Green (success_message (js ''android''))]], Pending)"
proof -
  have ne: "js ''android'' \<noteq> js ''ios''"
    by (simp add: js_def)
  have i: "platform_unit callback_throws () (js ''ios'') =
     ([Called (PatchMatchingFile (folderPrefix @ js ''/ios/*.xcodeproj/project.pbxproj''))],
      Pending)"
    by (simp add: platform_unit_ios callback_throws_calls Let_def)
  have a: "platform_unit callback_throws () (js ''android'') =
     ([Called (AddSentryProperties (js ''android'') ()),
       Settled (AddSentryProperties (js ''android'') ()) None,
       Green (success_message (js ''android''))], Fulfilled ())"
    by (simp add: platform_unit_other [OF ne] callback_throws_calls Let_def)
  have e: "emit callback_throws False () [js ''ios'', js ''android''] =
     ([[Called (PatchMatchingFile (folderPrefix @ js ''/ios/*.xcodeproj/project.pbxproj''))],
       [Called (AddSentryProperties (js ''android'') ()),
        Settled (AddSentryProperties (js ''android'') ()) None,
        Green (success_message (js ''android''))]], Pending)"
    by (simp add: emit_def promise_all_def i a)
  show ?thesis
    using patchXcodeProj_bodyless i a e by simp
qed

subsection \<open>C8: only shell-script phases are touched\<close>

text \<open>
  C8: both operations read and change the section \<open>PBXShellScriptBuildPhase\<close> only
  (and the first target's list of references). Every other section, where the phases
  of another kind live, is returned as it was, and the result does not depend on it.
  Revert leaves every phase record whose script does not match its pattern as it is,
  and Apply, which stores the new phase under an unused id, leaves every phase record
  as it is. A phase record here is an entry stored under an id, not under a comment
  key \<open>id_comment\<close>.
\<close>

theorem patches_touch_only_shell_scripts:
  "(unpatchXcodeBuildScripts proj = Inr proj' \<longrightarrow>
      otherObjects proj' = otherObjects proj \<and>
      (\<forall>k p. map_of (scripts_of proj) k = Some (Phase p) \<and>
             \<not> script_matches revert_pattern p \<and> \<not> is_comment_key k \<longrightarrow>
             map_of (scripts_of proj') k = Some (Phase p))) \<and>
   (addNewXcodeBuildPhaseForSymbols uuid (buildScripts proj) proj = Inr proj'' \<and>
    uuid \<notin> fst ` set (scripts_of proj) \<and> uuid @ js ''_comment'' \<notin> fst ` set (scripts_of proj) \<longrightarrow>
      otherObjects proj'' = otherObjects proj \<and>
      (\<forall>k p. map_of (scripts_of proj) k = Some (Phase p) \<longrightarrow>
             map_of (scripts_of proj'') k = Some (Phase p))) \<and>
   unpatchXcodeBuildScripts (proj\<lparr>otherObjects := other\<rparr>) =
     map_sum id (\<lambda>p. p\<lparr>otherObjects := other\<rparr>) (unpatchXcodeBuildScripts proj) \<and>
   addNewXcodeBuildPhaseForSymbols uuid (buildScripts (proj\<lparr>otherObjects := other\<rparr>))
       (proj\<lparr>otherObjects := other\<rparr>) =
     map_sum id (\<lambda>p. p\<lparr>otherObjects := other\<rparr>)
       (addNewXcodeBuildPhaseForSymbols uuid (buildScripts proj) proj)"
proof (intro conjI impI allI)
  assume "unpatchXcodeBuildScripts proj = Inr proj'"
  then show "otherObjects proj' = otherObjects proj"
    using unpatch_frame by blast
next
  fix k p
  assume "unpatchXcodeBuildScripts proj = Inr proj'"
    and "map_of (scripts_of proj) k = Some (Phase p) \<and>
             \<not> script_matches revert_pattern p \<and> \<not> is_comment_key k"
  then show "map_of (scripts_of proj') k = Some (Phase p)"
    using unpatch_keeps_phase by blast
next
  assume "addNewXcodeBuildPhaseForSymbols uuid (buildScripts proj) proj = Inr proj'' \<and>
    uuid \<notin> fst ` set (scripts_of proj) \<and> uuid @ js ''_comment'' \<notin> fst ` set (scripts_of proj)"
  then show "otherObjects proj'' = otherObjects proj"
    using apply_frame by blast
next
  fix k p
  assume a: "addNewXcodeBuildPhaseForSymbols uuid (buildScripts proj) proj = Inr proj'' \<and>
    uuid \<notin> fst ` set (scripts_of proj) \<and> uuid @ js ''_comment'' \<notin> fst ` set (scripts_of proj)"
    and m: "map_of (scripts_of proj) k = Some (Phase p)"
  from m have "k \<in> fst ` set (scripts_of proj)"
    by (auto dest!: map_of_SomeD intro: rev_image_eqI)
  with a have "k \<noteq> uuid" "k \<noteq> uuid @ js ''_comment''"
    by blast+
  with a m show "map_of (scripts_of proj'') k = Some (Phase p)"
    using apply_keeps_entry by metis
next
  show "unpatchXcodeBuildScripts (proj\<lparr>otherObjects := other\<rparr>) =
     map_sum id (\<lambda>p. p\<lparr>otherObjects := other\<rparr>) (unpatchXcodeBuildScripts proj)"
    by (rule unpatch_ignores_other_objects)
next
  show "addNewXcodeBuildPhaseForSymbols uuid (buildScripts (proj\<lparr>otherObjects := other\<rparr>))
       (proj\<lparr>otherObjects := other\<rparr>) =
     map_sum id (\<lambda>p. p\<lparr>otherObjects := other\<rparr>)
       (addNewXcodeBuildPhaseForSymbols uuid (buildScripts proj) proj)"
    by (rule apply_ignores_other_objects)
qed

theorem patches_touch_only_shell_scripts_witness:
  "map_of (scripts_of patched_project) (js ''A1'') = Some (Phase run_phase) \<and>
   unpatchXcodeBuildScripts patched_project = Inr example_project \<and>
   map_of (scripts_of example_project) (js ''A1'') = Some (Phase run_phase) \<and>
   addNewXcodeBuildPhaseForSymbols (js ''B2'') (buildScripts example_project) example_project =
     Inr patched_project \<and>
   otherObjects patched_project = otherObjects example_project"
proof -
  have a: "map_of (scripts_of patched_project) (js ''A1'') = Some (Phase run_phase)"
    by (simp add: scripts_of_def patched_project_def)
  have b: "\<not> script_matches revert_pattern run_phase \<and> \<not> is_comment_key (js ''A1'')"
    using run_phase_plain by (simp add: is_comment_key_def suffix_to_prefix js_def)
  have c: "js ''B2'' \<notin> fst ` set (scripts_of example_project) \<and>
      js ''B2'' @ js ''_comment'' \<notin> fst ` set (scripts_of example_project)"
    by (simp add: scripts_of_def example_project_def js_def)
  have d: "map_of (scripts_of example_project) (js ''A1'') = Some (Phase run_phase)"
    using patches_touch_only_shell_scripts [where proj = patched_project and proj' = example_project]
      unpatch_patched a b by blast
  have e: "otherObjects patched_project = otherObjects example_project"
    using patches_touch_only_shell_scripts [where proj = example_project and uuid = "js ''B2''"
        and proj'' = patched_project] apply_example c by blast
  from a d e unpatch_patched apply_example show ?thesis by blast
qed

subsection \<open>C9: patch first, properties second\<close>

text \<open>
  C9: in the trace of a platform's unit, \<open>patchMatchingFile\<close> has settled before
  \<open>addSentryProperties\<close> is called, and it has settled without an error whenever
  \<open>addSentryProperties\<close> is called at all. \<open>patchMatchingFile\<close> is called for the
  platform \<open>ios\<close> and for no other.
\<close>

theorem patch_precedes_properties:
  "(\<forall>i j g r q pr.
      i < length (fst (platform_unit io props platform)) \<and>
      j < length (fst (platform_unit io props platform)) \<and>
      fst (platform_unit io props platform) ! i = Settled (PatchMatchingFile g) r \<and>
      fst (platform_unit io props platform) ! j = Called (AddSentryProperties q pr)
      \<longrightarrow> i < j \<and> r = None) \<and>
   ((\<exists>g. Called (PatchMatchingFile g) \<in> set (fst (platform_unit io props platform)))
      \<longleftrightarrow> platform = js ''ios'') \<and>
   (platform = js ''ios'' \<and>
    (\<exists>q pr. Called (AddSentryProperties q pr) \<in> set (fst (platform_unit io props platform)))
      \<longrightarrow> Settled (PatchMatchingFile (folderPrefix @ js ''/ios/*.xcodeproj/project.pbxproj'')) None
            \<in> set (fst (platform_unit io props platform)))"
proof (cases "platform = js ''ios''")
  case True
  show ?thesis
    unfolding True platform_unit_ios Let_def
    by (auto simp: nth_Cons' split: promise.splits if_splits)
next
  case False
  show ?thesis
    unfolding platform_unit_other [OF False] Let_def using False
    by (auto simp: nth_Cons' split: promise.splits if_splits)
qed

theorem patch_precedes_properties_witness:
  "fst (platform_unit all_succeed () (js ''ios'')) ! 1 =
     Settled (PatchMatchingFile (folderPrefix @ js ''/ios/*.xcodeproj/project.pbxproj'')) None \<and>
   fst (platform_unit all_succeed () (js ''ios'')) ! 2 = Called (AddSentryProperties (js ''ios'') ()) \<and>
   (1::nat) < 2 \<and>
   (\<exists>g. Called (PatchMatchingFile g) \<in> set (fst (platform_unit all_succeed () (js ''ios''))))"
proof -
  have tr: "fst (platform_unit all_succeed () (js ''ios'')) =
      [Called (PatchMatchingFile (folderPrefix @ js ''/ios/*.xcodeproj/project.pbxproj'')),
       Settled (PatchMatchingFile (folderPrefix @ js ''/ios/*.xcodeproj/project.pbxproj'')) None,
       Called (AddSentryProperties (js ''ios'') ()),
       Settled (AddSentryProperties (js ''ios'') ()) None,
       Green (success_message (js ''ios''))]"
    by (simp add: platform_unit_ios all_succeed_def Let_def)
  have i: "fst (platform_unit all_succeed () (js ''ios'')) ! 1 =
     Settled (PatchMatchingFile (folderPrefix @ js ''/ios/*.xcodeproj/project.pbxproj'')) None"
    and j: "fst (platform_unit all_succeed () (js ''ios'')) ! 2 =
      Called (AddSentryProperties (js ''ios'') ())"
    and l: "1 < length (fst (platform_unit all_succeed () (js ''ios'')))"
      "2 < length (fst (platform_unit all_succeed () (js ''ios'')))"
    by (simp_all add: tr)
  note t = patch_precedes_properties [of all_succeed "()" "js ''ios''"]
  from t [THEN conjunct1, rule_format, OF conjI [OF l(1) conjI [OF l(2) conjI [OF i j]]]]
  have "(1::nat) < 2" ..
  moreover from t [THEN conjunct2, THEN conjunct1]
  have "\<exists>g. Called (PatchMatchingFile g) \<in> set (fst (platform_unit all_succeed () (js ''ios'')))"
    by simp
  ultimately show ?thesis
    using i j by simp
qed

subsection \<open>C10: checkPackageVersion\<close>

text \<open>
  C10: \<open>checkPackageVersion\<close> returns false when the package has no entry, or the
  empty string, in both \<open>dependencies\<close> and \<open>devDependencies\<close>; otherwise it returns
  true exactly when one of the two listed strings fulfils the acceptable range. The
  string \<open>latest\<close> fulfils it exactly when \<open>canBeLatest\<close> holds; a valid version
  fulfils it when it satisfies the range; a string that is no valid version and is a
  valid range fulfils it when the range is a subset of the acceptable one; any other
  string does not fulfil it.
\<close>

theorem checkPackageVersion_rule:
  "(listed_version (Option.bind appPackage dependencies) packageName = [] \<and>
    listed_version (Option.bind appPackage devDependencies) packageName = [] \<longrightarrow>
      \<not> snd (checkPackageVersion sv appPackage packageName acceptableVersions canBeLatest)) \<and>
   (\<not> (listed_version (Option.bind appPackage dependencies) packageName = [] \<and>
       listed_version (Option.bind appPackage devDependencies) packageName = []) \<longrightarrow>
      snd (checkPackageVersion sv appPackage packageName acceptableVersions canBeLatest) =
        (fulfillsVersionRange sv (listed_version (Option.bind appPackage dependencies) packageName)
           acceptableVersions canBeLatest \<or>
         fulfillsVersionRange sv (listed_version (Option.bind appPackage devDependencies) packageName)
           acceptableVersions canBeLatest)) \<and>
   (\<forall>deps. listed_version deps packageName = [] \<longleftrightarrow>
      (deps = None \<or> (\<exists>d. deps = Some d \<and> (d packageName = None \<or> d packageName = Some [])))) \<and>
   fulfillsVersionRange sv (js ''latest'') acceptableVersions canBeLatest = canBeLatest \<and>
   (version \<noteq> js ''latest'' \<and> sv_valid sv version = Some v \<and> v \<noteq> [] \<longrightarrow>
      fulfillsVersionRange sv version acceptableVersions canBeLatest =
        sv_satisfies sv v acceptableVersions) \<and>
   (version \<noteq> js ''latest'' \<and> \<not> truthy (sv_valid sv version) \<and>
    sv_validRange sv version = Some r \<and> r \<noteq> [] \<longrightarrow>
      fulfillsVersionRange sv version acceptableVersions canBeLatest =
        sv_subset sv r acceptableVersions) \<and>
   (version \<noteq> js ''latest'' \<and> \<not> truthy (sv_valid sv version) \<and>
    \<not> truthy (sv_validRange sv version) \<longrightarrow>
      \<not> fulfillsVersionRange sv version acceptableVersions canBeLatest)"
proof (intro conjI impI allI)
  fix deps
  show "listed_version deps packageName = [] \<longleftrightarrow>
      (deps = None \<or> (\<exists>d. deps = Some d \<and> (d packageName = None \<or> d packageName = Some [])))"
    by (rule listed_version_empty)
next
  assume "listed_version (Option.bind appPackage dependencies) packageName = [] \<and>
    listed_version (Option.bind appPackage devDependencies) packageName = []"
  then show "\<not> snd (checkPackageVersion sv appPackage packageName acceptableVersions canBeLatest)"
    by (simp add: checkPackageVersion_def)
next
  assume "\<not> (listed_version (Option.bind appPackage dependencies) packageName = [] \<and>
       listed_version (Option.bind appPackage devDependencies) packageName = [])"
  then show "snd (checkPackageVersion sv appPackage packageName acceptableVersions canBeLatest) =
        (fulfillsVersionRange sv (listed_version (Option.bind appPackage dependencies) packageName)
           acceptableVersions canBeLatest \<or>
         fulfillsVersionRange sv (listed_version (Option.bind appPackage devDependencies) packageName)
           acceptableVersions canBeLatest)"
    by (auto simp: checkPackageVersion_def Let_def)
next
  show "fulfillsVersionRange sv (js ''latest'') acceptableVersions canBeLatest = canBeLatest"
    by (simp add: fulfills_unfold)
next
  assume "version \<noteq> js ''latest'' \<and> sv_valid sv version = Some v \<and> v \<noteq> []"
  then show "fulfillsVersionRange sv version acceptableVersions canBeLatest =
        sv_satisfies sv v acceptableVersions"
    by (simp add: fulfills_unfold truthy_def)
next
  assume "version \<noteq> js ''latest'' \<and> \<not> truthy (sv_valid sv version) \<and>
    sv_validRange sv version = Some r \<and> r \<noteq> []"
  then show "fulfillsVersionRange sv version acceptableVersions canBeLatest =
        sv_subset sv r acceptableVersions"
    by (simp add: fulfills_unfold) (simp add: truthy_def)
next
  assume "version \<noteq> js ''latest'' \<and> \<not> truthy (sv_valid sv version) \<and>
    \<not> truthy (sv_validRange sv version)"
  then show "\<not> fulfillsVersionRange sv version acceptableVersions canBeLatest"
    by (simp add: fulfills_unfold)
qed

theorem checkPackageVersion_rule_witness:
  "snd (checkPackageVersion example_semver (Some example_package) (js ''cordova'') (js ''>=1.0.0'') False) \<and>
   \<not> snd (checkPackageVersion example_semver (Some example_package) (js ''left-pad'') (js ''>=1.0.0'') False) \<and>
   \<not> snd (checkPackageVersion example_semver (Some example_package) (js ''lodash'') (js ''>=1.0.0'') False) \<and>
   fulfillsVersionRange example_semver (js ''1.2.3'') (js ''>=1.0.0'') False \<and>
   fulfillsVersionRange example_semver (js ''^1.0.0'') (js ''>=1.0.0'') False \<and>
   \<not> fulfillsVersionRange example_semver (js ''bogus'') (js ''>=1.0.0'') False"
proof -
  have ne: "js ''bogus'' \<noteq> []" "js ''latest'' \<noteq> []"
    by (simp_all add: js_def)
  note t = checkPackageVersion_rule [where sv = example_semver and appPackage = "Some example_package"
      and acceptableVersions = "js ''>=1.0.0''" and canBeLatest = False]
  from t [where packageName = "js ''cordova''", THEN conjunct2, THEN conjunct1]
  have "snd (checkPackageVersion example_semver (Some example_package) (js ''cordova'') (js ''>=1.0.0'') False)"
    by (simp add: example_listed example_fulfils ne)
  moreover from t [where packageName = "js ''left-pad''", THEN conjunct2, THEN conjunct1]
  have "\<not> snd (checkPackageVersion example_semver (Some example_package) (js ''left-pad'') (js ''>=1.0.0'') False)"
    by (simp add: example_listed example_fulfils ne)
  moreover from t [where packageName = "js ''lodash''", THEN conjunct1]
  have "\<not> snd (checkPackageVersion example_semver (Some example_package) (js ''lodash'') (js ''>=1.0.0'') False)"
    by (simp add: example_listed)
  moreover from t [where version = "js ''1.2.3''" and v = "js ''1.2.3''",
      THEN conjunct2, THEN conjunct2, THEN conjunct2, THEN conjunct2, THEN conjunct1]
  have "fulfillsVersionRange example_semver (js ''1.2.3'') (js ''>=1.0.0'') False"
    by (simp add: example_semver_def js_def)
  moreover from t [where version = "js ''^1.0.0''" and r = "js ''>=1.0.0 <2.0.0-0''",
      THEN conjunct2, THEN conjunct2, THEN conjunct2, THEN conjunct2, THEN conjunct2, THEN conjunct1]
  have "fulfillsVersionRange example_semver (js ''^1.0.0'') (js ''>=1.0.0'') False"
    by (simp add: example_semver_def truthy_def js_def)
  moreover from t [where version = "js ''bogus''",
      THEN conjunct2, THEN conjunct2, THEN conjunct2, THEN conjunct2, THEN conjunct2, THEN conjunct2]
  have "\<not> fulfillsVersionRange example_semver (js ''bogus'') (js ''>=1.0.0'') False"
    by (simp add: example_semver_def truthy_def js_def)
  ultimately show ?thesis by simp
qed

end
